theory Spec2Isabelle
  imports Complex_Main "HOL-Library.AList" "HOL-Library.Multiset"
begin

section \<open>JavaScript values\<close>

text \<open>
  The banking script of \<^verbatim>\<open>src/week-1/task-1/index.js\<close> works on untyped JavaScript
  values. The values of the model are plain data: \<^verbatim>\<open>undefined\<close>, \<^verbatim>\<open>null\<close>, booleans,
  numbers, strings, dense arrays and objects given by their own enumerable string-keyed
  data properties, in the order of their enumeration. Functions, symbols, accessors and
  objects with a prototype of their own are not values of the model.

  A finite number is a rational: every finite double is one. Arithmetic on numbers is
  exact: the rounding of IEEE-754 doubles, and the overflow of a sum, are not part of
  the model. \<^verbatim>\<open>NaN\<close> and the two infinities are values of their own, and \<^verbatim>\<open>-0\<close> is
  \<^verbatim>\<open>0\<close> (the script never tells them apart).
\<close>

datatype jsnum = Fin rat | NaN | PosInf | NegInf

datatype jsval =
    JUndefined
  | JNull
  | JBool bool
  | JNum jsnum
  | JStr string
  | JArr "jsval list"
  | JObj "(string \<times> jsval) list"

type_synonym props = "(string \<times> jsval) list"

text \<open>\<^verbatim>\<open>!v\<close> is true for the falsy values.\<close>

fun falsy :: "jsval \<Rightarrow> bool" where
  "falsy JUndefined = True"
| "falsy JNull = True"
| "falsy (JBool b) = (\<not> b)"
| "falsy (JNum n) = (n = Fin 0 \<or> n = NaN)"
| "falsy (JStr s) = (s = [])"
| "falsy (JArr xs) = False"
| "falsy (JObj ps) = False"

text \<open>\<^verbatim>\<open>typeof v === "object"\<close> holds for \<^verbatim>\<open>null\<close>, arrays and objects.\<close>

fun typeofObject :: "jsval \<Rightarrow> bool" where
  "typeofObject JNull = True"
| "typeofObject (JArr xs) = True"
| "typeofObject (JObj ps) = True"
| "typeofObject v = False"

fun typeofString :: "jsval \<Rightarrow> bool" where
  "typeofString (JStr s) = True"
| "typeofString v = False"

fun isArray :: "jsval \<Rightarrow> bool" where
  "isArray (JArr xs) = True"
| "isArray v = False"

text \<open>
  Reading a property \<^verbatim>\<open>v.k\<close>. The script reads only the keys \<^verbatim>\<open>type\<close>, \<^verbatim>\<open>amount\<close>,
  \<^verbatim>\<open>accountNumber\<close>, \<^verbatim>\<open>accountHolder\<close>, \<^verbatim>\<open>initialBalance\<close>, \<^verbatim>\<open>currency\<close> and
  \<^verbatim>\<open>transactions\<close>, and only of values that are neither \<^verbatim>\<open>undefined\<close> nor \<^verbatim>\<open>null\<close>;
  no prototype has one of these keys, so a value without the own property yields
  \<^verbatim>\<open>undefined\<close>.
\<close>

fun getProp :: "jsval \<Rightarrow> string \<Rightarrow> jsval" where
  "getProp (JObj ps) k = (case map_of ps k of Some v \<Rightarrow> v | None \<Rightarrow> JUndefined)"
| "getProp v k = JUndefined"

subsection \<open>Exceptions and template literals\<close>

text \<open>
  A template literal is kept as the list of its literal chunks and interpolated values;
  how \<^verbatim>\<open>ToString\<close> prints a value is a matter of display and is not modelled, but
  whether it raises is. \<^verbatim>\<open>ToString\<close> of an object calls its \<^verbatim>\<open>toString\<close> method, then
  \<^verbatim>\<open>valueOf\<close>: an own data property \<^verbatim>\<open>toString\<close> hides the inherited method, the
  inherited \<^verbatim>\<open>valueOf\<close> returns the object itself, and the conversion ends in a
  \<^verbatim>\<open>TypeError\<close>. An array joins the strings of its elements (\<^verbatim>\<open>undefined\<close> and
  \<^verbatim>\<open>null\<close> print as the empty string), so it raises when one of them does.
\<close>

datatype part = Lit string | Val jsval

type_synonym message = "part list"

datatype exn = Error message | TypeError

text \<open>
  \<^verbatim>\<open>err.message\<close>: the message given to \<^verbatim>\<open>new Error\<close>; for the \<^verbatim>\<open>TypeError\<close> of a
  conversion the text is the engine's own (here the one of V8).
\<close>

fun exn_message :: "exn \<Rightarrow> message" where
  "exn_message (Error m) = m"
| "exn_message TypeError = [Lit ''Cannot convert object to primitive value'']"

fun toStringRaises :: "jsval \<Rightarrow> bool" where
  "toStringRaises (JObj ps) = (''toString'' \<in> set (map fst ps))"
| "toStringRaises (JArr xs) = list_ex toStringRaises xs"
| "toStringRaises v = False"

fun partRaises :: "part \<Rightarrow> bool" where
  "partRaises (Lit s) = False"
| "partRaises (Val v) = toStringRaises v"

definition template :: "part list \<Rightarrow> exn + message" where
  "template ps = (if list_ex partRaises ps then Inl TypeError else Inr ps)"

section \<open>Coercion to a number\<close>

subsection \<open>\<^verbatim>\<open>StringToNumber\<close>\<close>

text \<open>
  \<^verbatim>\<open>Number(s)\<close> of a string follows the grammar \<^verbatim>\<open>StringNumericLiteral\<close> of
  ECMAScript: optional white space around an optional literal; the literal is a signed
  decimal literal (\<^verbatim>\<open>Infinity\<close>, digits with an optional fraction and exponent) or an
  unsigned binary, octal or hexadecimal integer. A string outside the grammar is
  \<^verbatim>\<open>NaN\<close>, the empty or blank string is \<^verbatim>\<open>0\<close>. Characters are bytes here, so only
  the ASCII white space is recognised.
\<close>

definition StrWhiteSpaceChar :: "char \<Rightarrow> bool" where
  "StrWhiteSpaceChar c =
     (c \<in> set [CHR 0x09, CHR 0x0A, CHR 0x0B, CHR 0x0C, CHR 0x0D, CHR '' ''])"

definition trimWhiteSpace :: "string \<Rightarrow> string" where
  "trimWhiteSpace s =
     rev (dropWhile StrWhiteSpaceChar (rev (dropWhile StrWhiteSpaceChar s)))"

definition digitTable :: "(char \<times> nat) list" where
  "digitTable =
     [(CHR ''0'', 0), (CHR ''1'', 1), (CHR ''2'', 2), (CHR ''3'', 3), (CHR ''4'', 4),
      (CHR ''5'', 5), (CHR ''6'', 6), (CHR ''7'', 7), (CHR ''8'', 8), (CHR ''9'', 9),
      (CHR ''a'', 10), (CHR ''b'', 11), (CHR ''c'', 12), (CHR ''d'', 13), (CHR ''e'', 14),
      (CHR ''f'', 15),
      (CHR ''A'', 10), (CHR ''B'', 11), (CHR ''C'', 12), (CHR ''D'', 13), (CHR ''E'', 14),
      (CHR ''F'', 15)]"

definition digitIn :: "nat \<Rightarrow> char \<Rightarrow> nat option" where
  "digitIn base c =
     (case map_of digitTable c of
        Some d \<Rightarrow> if d < base then Some d else None
      | None \<Rightarrow> None)"

definition isDigitIn :: "nat \<Rightarrow> char \<Rightarrow> bool" where
  "isDigitIn base c = (digitIn base c \<noteq> None)"

definition digitsValue :: "nat \<Rightarrow> string \<Rightarrow> nat" where
  "digitsValue base s =
     foldl (\<lambda>a c. base * a + (case digitIn base c of Some d \<Rightarrow> d | None \<Rightarrow> 0)) 0 s"

text \<open>\<^verbatim>\<open>DecimalDigits\<close> and the like: at least one digit, and digits only.\<close>

definition isDigits :: "nat \<Rightarrow> string \<Rightarrow> bool" where
  "isDigits base s = (s \<noteq> [] \<and> list_all (isDigitIn base) s)"

definition SignedInteger :: "string \<Rightarrow> int option" where
  "SignedInteger s =
     (case s of
        c # ds \<Rightarrow>
          if c = CHR ''+'' then
            (if isDigits 10 ds then Some (int (digitsValue 10 ds)) else None)
          else if c = CHR ''-'' then
            (if isDigits 10 ds then Some (- int (digitsValue 10 ds)) else None)
          else if isDigits 10 s then Some (int (digitsValue 10 s)) else None
      | [] \<Rightarrow> None)"

text \<open>An optional \<^verbatim>\<open>ExponentPart\<close> at the end of the literal: the exponent it denotes.\<close>

definition ExponentPart :: "string \<Rightarrow> int option" where
  "ExponentPart s =
     (case s of
        [] \<Rightarrow> Some 0
      | c # r \<Rightarrow> if c = CHR ''e'' \<or> c = CHR ''E'' then SignedInteger r else None)"

definition power10 :: "int \<Rightarrow> rat" where
  "power10 e = (if 0 \<le> e then 10 ^ nat e else 1 / 10 ^ nat (- e))"

text \<open>
  Reading a literal rounds its value to the nearest double. The model keeps the exact
  value where it rounds to a finite double, and gives the infinity from
  \<^verbatim>\<open>2^1024 - 2^970\<close> on, the least value that rounds beyond the largest finite
  double.
\<close>

definition overflow :: "rat \<Rightarrow> jsnum" where
  "overflow v =
     (if 2 ^ 1024 - 2 ^ 970 \<le> v then PosInf
      else if v \<le> - (2 ^ 1024 - 2 ^ 970) then NegInf
      else Fin v)"

definition StrUnsignedDecimalLiteral :: "string \<Rightarrow> jsnum" where
  "StrUnsignedDecimalLiteral u =
     (if u = ''Infinity'' then PosInf
      else
        let ip = takeWhile (isDigitIn 10) u;
            r1 = dropWhile (isDigitIn 10) u;
            fp = (case r1 of
                    c # r \<Rightarrow> if c = CHR ''.'' then takeWhile (isDigitIn 10) r else []
                  | [] \<Rightarrow> []);
            r2 = (case r1 of
                    c # r \<Rightarrow> if c = CHR ''.'' then dropWhile (isDigitIn 10) r else r1
                  | [] \<Rightarrow> [])
        in if ip = [] \<and> fp = [] then NaN
           else
             (case ExponentPart r2 of
                None \<Rightarrow> NaN
              | Some e \<Rightarrow>
                  overflow ((of_nat (digitsValue 10 ip)
                             + of_nat (digitsValue 10 fp) / 10 ^ length fp) * power10 e)))"

fun negate :: "jsnum \<Rightarrow> jsnum" where
  "negate (Fin r) = Fin (- r)"
| "negate NaN = NaN"
| "negate PosInf = NegInf"
| "negate NegInf = PosInf"

definition StrDecimalLiteral :: "string \<Rightarrow> jsnum" where
  "StrDecimalLiteral s =
     (case s of
        c # u \<Rightarrow>
          if c = CHR ''+'' then StrUnsignedDecimalLiteral u
          else if c = CHR ''-'' then negate (StrUnsignedDecimalLiteral u)
          else StrUnsignedDecimalLiteral s
      | [] \<Rightarrow> StrUnsignedDecimalLiteral s)"

text \<open>\<^verbatim>\<open>0x\<close>, \<^verbatim>\<open>0o\<close> and \<^verbatim>\<open>0b\<close> literals; \<open>None\<close> when the string is not one.\<close>

definition NonDecimalIntegerLiteral :: "string \<Rightarrow> jsnum option" where
  "NonDecimalIntegerLiteral s =
     (case s of
        z # x # ds \<Rightarrow>
          if z \<noteq> CHR ''0'' then None
          else if (x = CHR ''x'' \<or> x = CHR ''X'') \<and> isDigits 16 ds
            then Some (overflow (of_nat (digitsValue 16 ds)))
          else if (x = CHR ''o'' \<or> x = CHR ''O'') \<and> isDigits 8 ds
            then Some (overflow (of_nat (digitsValue 8 ds)))
          else if (x = CHR ''b'' \<or> x = CHR ''B'') \<and> isDigits 2 ds
            then Some (overflow (of_nat (digitsValue 2 ds)))
          else None
      | _ \<Rightarrow> None)"

definition StringToNumber :: "string \<Rightarrow> jsnum" where
  "StringToNumber s =
     (let t = trimWhiteSpace s
      in if t = [] then Fin 0
         else (case NonDecimalIntegerLiteral t of
                 Some n \<Rightarrow> n
               | None \<Rightarrow> StrDecimalLiteral t))"

subsection \<open>\<^verbatim>\<open>Number(value)\<close> and \<^verbatim>\<open>toNumber\<close>\<close>

text \<open>
  \<^verbatim>\<open>Number(v)\<close> of an object converts it to a primitive first (\<^verbatim>\<open>valueOf\<close>, then
  \<^verbatim>\<open>toString\<close>): a plain object becomes \<^verbatim>\<open>"[object Object]"\<close>, which is \<^verbatim>\<open>NaN\<close>, and
  raises under the condition of \<open>toStringRaises\<close>. An array becomes the join of its
  elements with commas: the empty string for the empty array, the string of its element
  for a singleton (which reads back as the number when the element is a number), and a
  string with a comma, hence \<^verbatim>\<open>NaN\<close>, for two elements or more.
\<close>

fun ToNumber :: "jsval \<Rightarrow> jsnum" where
  "ToNumber JUndefined = NaN"
| "ToNumber JNull = Fin 0"
| "ToNumber (JBool b) = (if b then Fin 1 else Fin 0)"
| "ToNumber (JNum n) = n"
| "ToNumber (JStr s) = StringToNumber s"
| "ToNumber (JObj ps) = NaN"
| "ToNumber (JArr []) = Fin 0"
| "ToNumber (JArr [JUndefined]) = Fin 0"
| "ToNumber (JArr [JNull]) = Fin 0"
| "ToNumber (JArr [JBool b]) = NaN"
| "ToNumber (JArr [JNum n]) = n"
| "ToNumber (JArr [JStr s]) = StringToNumber s"
| "ToNumber (JArr [JObj ps]) = NaN"
| "ToNumber (JArr [JArr xs]) = ToNumber (JArr xs)"
| "ToNumber (JArr (x # y # zs)) = NaN"

definition Number :: "jsval \<Rightarrow> exn + jsnum" where
  "Number v = (if toStringRaises v then Inl TypeError else Inr (ToNumber v))"

fun isFinite :: "jsnum \<Rightarrow> bool" where
  "isFinite (Fin r) = True"
| "isFinite n = False"

fun isNaN :: "jsnum \<Rightarrow> bool" where
  "isNaN NaN = True"
| "isNaN n = False"

text \<open>
  \<^verbatim>\<open>const toNumber = (value) => { const n = Number(value);
  return isFinite(n) && !isNaN(n) ? n : null; }\<close>: \<open>None\<close> is \<^verbatim>\<open>null\<close>.
\<close>

definition toNumber :: "jsval \<Rightarrow> exn + rat option" where
  "toNumber v =
     (case Number v of
        Inl e \<Rightarrow> Inl e
      | Inr n \<Rightarrow>
          Inr (if isFinite n \<and> \<not> isNaN n
               then (case n of Fin r \<Rightarrow> Some r | _ \<Rightarrow> None)
               else None))"

section \<open>Validating one transaction\<close>

text \<open>
  \<^verbatim>\<open>const isTransactionType = (type) =>
  typeof type === "string" && ["Deposit", "Withdraw"].includes(type);\<close>
\<close>

definition isTransactionType :: "jsval \<Rightarrow> bool" where
  "isTransactionType type =
     (typeofString type \<and> type \<in> set [JStr ''Deposit'', JStr ''Withdraw''])"

text \<open>
  The object returned by \<^verbatim>\<open>validateTransaction\<close>: \<^verbatim>\<open>{ ok: false, error }\<close> or
  \<^verbatim>\<open>{ ok: true, amount }\<close>.
\<close>

datatype validation = Invalid message | Valid rat

definition validateTransaction :: "jsval \<Rightarrow> exn + validation" where
  "validateTransaction txn =
     (if falsy txn \<or> \<not> typeofObject txn then
        Inr (Invalid [Lit ''Invalid transaction object''])
      else if falsy (getProp txn ''type'') then
        Inr (Invalid [Lit ''Missing transaction type''])
      else if \<not> isTransactionType (getProp txn ''type'') then
        (case template [Lit ''Unknown transaction type: '', Val (getProp txn ''type'')] of
           Inl e \<Rightarrow> Inl e
         | Inr m \<Rightarrow> Inr (Invalid m))
      else if getProp txn ''amount'' = JUndefined \<or> getProp txn ''amount'' = JNull then
        Inr (Invalid [Lit ''Missing transaction amount''])
      else
        (case toNumber (getProp txn ''amount'') of
           Inl e \<Rightarrow> Inl e
         | Inr None \<Rightarrow>
             (case template [Lit ''Invalid amount: '', Val (getProp txn ''amount'')] of
                Inl e \<Rightarrow> Inl e
              | Inr m \<Rightarrow> Inr (Invalid m))
         | Inr (Some amount) \<Rightarrow>
             if amount \<le> 0 then
               (case template [Lit ''Amount must be positive: '', Val (JNum (Fin amount))] of
                  Inl e \<Rightarrow> Inl e
                | Inr m \<Rightarrow> Inr (Invalid m))
             else Inr (Valid amount)))"

section \<open>Applying one transaction\<close>

record account =
  accountNumber :: jsval
  accountHolder :: jsval
  currency :: jsval
  initialBalance :: rat
  balance :: rat

text \<open>
  The object returned by \<^verbatim>\<open>applyTransaction\<close>: \<^verbatim>\<open>{ applied: true, transaction }\<close> or
  \<^verbatim>\<open>{ applied: false, reason, transaction }\<close>.
\<close>

datatype result = Applied props | NotApplied message props

text \<open>
  The spread \<^verbatim>\<open>{ ...transaction }\<close> copies the own enumerable properties: those of an
  object, the indexed elements of an array, the indexed characters of a string, and
  nothing of any other value.
\<close>

fun showNat :: "nat \<Rightarrow> string" where
  "showNat n =
     (if n < 10 then [char_of (48 + n)]
      else showNat (n div 10) @ [char_of (48 + n mod 10)])"

definition indexed :: "jsval list \<Rightarrow> props" where
  "indexed xs = zip (map showNat [0 ..< length xs]) xs"

fun spread :: "jsval \<Rightarrow> props" where
  "spread (JObj ps) = ps"
| "spread (JArr xs) = indexed xs"
| "spread (JStr s) = indexed (map (\<lambda>c. JStr [c]) s)"
| "spread v = []"

text \<open>\<^verbatim>\<open>{ ...transaction, index: index + 1 }\<close>\<close>

definition withIndex :: "nat \<Rightarrow> props \<Rightarrow> props" where
  "withIndex index ps = AList.update ''index'' (JNum (Fin (of_nat (index + 1)))) ps"

text \<open>
  \<^verbatim>\<open>applyTransaction\<close> mutates \<^verbatim>\<open>account.balance\<close>: the model returns the account next
  to the result. An exception leaves \<^verbatim>\<open>validateTransaction\<close> before anything is
  written, so the account after an exception is the account before.
\<close>

definition applyTransaction :: "account \<Rightarrow> nat \<Rightarrow> jsval \<Rightarrow> exn + (account \<times> result)" where
  "applyTransaction account index transaction =
     (case validateTransaction transaction of
        Inl e \<Rightarrow> Inl e
      | Inr (Invalid error) \<Rightarrow>
          Inr (account, NotApplied error (withIndex index (spread transaction)))
      | Inr (Valid amount) \<Rightarrow>
          if getProp transaction ''type'' = JStr ''Withdraw'' \<and> amount > balance account then
            (case template [Lit ''Insufficient balance: required '', Val (JNum (Fin amount)),
                            Lit '', available '', Val (JNum (Fin (balance account)))] of
               Inl e \<Rightarrow> Inl e
             | Inr reason \<Rightarrow>
                 Inr (account, NotApplied reason (withIndex index (spread transaction))))
          else
            Inr (account\<lparr>balance := balance account +
                           (if getProp transaction ''type'' = JStr ''Deposit''
                            then amount else - amount)\<rparr>,
                 Applied (withIndex index
                           (AList.update ''amount'' (JNum (Fin amount)) (spread transaction)))))"

section \<open>The main system\<close>

text \<open>
  An entry of the \<^verbatim>\<open>rejected\<close> array: the result of a transaction that was not applied,
  or \<^verbatim>\<open>{ error: "System Error", message }\<close>.
\<close>

datatype rejection = TxnRejected message props | SystemError message

text \<open>
  What \<^verbatim>\<open>processBankingTransaction\<close> holds when it starts to print its report: the
  account (\<open>None\<close> for \<^verbatim>\<open>null\<close>), the two arrays and the line of the audit log.
\<close>

record outcome =
  account :: "account option"
  applied :: "props list"
  rejected :: "rejection list"
  logMessage :: message

text \<open>
  Lines 100 to 124: the checks of the input and the initialisation of the account. The
  result is the exception thrown, or the new account with the elements of
  \<^verbatim>\<open>transactions\<close>.
\<close>

definition initAccount :: "jsval \<Rightarrow> exn + (account \<times> jsval list)" where
  "initAccount input =
     (if falsy input \<or> \<not> typeofObject input then
        Inl (Error [Lit ''Input must be a valid object''])
      else if falsy (getProp input ''accountNumber'') then
        Inl (Error [Lit ''Missing account number''])
      else if falsy (getProp input ''accountHolder'') then
        Inl (Error [Lit ''Missing account holder''])
      else if getProp input ''initialBalance'' = JUndefined
              \<or> getProp input ''initialBalance'' = JNull then
        Inl (Error [Lit ''Missing initial balance''])
      else if falsy (getProp input ''currency'') then
        Inl (Error [Lit ''Missing currency''])
      else
        (case getProp input ''transactions'' of
           JArr transactions \<Rightarrow>
             (case toNumber (getProp input ''initialBalance'') of
                Inl e \<Rightarrow> Inl e
              | Inr None \<Rightarrow>
                  (case template [Lit ''Invalid initial balance: '',
                                  Val (getProp input ''initialBalance'')] of
                     Inl e \<Rightarrow> Inl e
                   | Inr m \<Rightarrow> Inl (Error m))
              | Inr (Some startingBalance) \<Rightarrow>
                  Inr (\<lparr>accountNumber = getProp input ''accountNumber'',
                        accountHolder = getProp input ''accountHolder'',
                        currency = getProp input ''currency'',
                        initialBalance = startingBalance,
                        balance = startingBalance\<rparr>,
                       transactions))
         | _ \<Rightarrow> Inl (Error [Lit ''Transactions must be an array''])))"

text \<open>
  \<^verbatim>\<open>transactions.forEach((txn, i) => { ... })\<close>: the state is the account and the two
  arrays; the first component of the result is the exception that ended the loop, if
  one did.
\<close>

fun forEachTxn ::
  "account \<Rightarrow> nat \<Rightarrow> jsval list \<Rightarrow> props list \<Rightarrow> rejection list
     \<Rightarrow> exn option \<times> account \<times> props list \<times> rejection list" where
  "forEachTxn acc i [] ap rj = (None, acc, ap, rj)"
| "forEachTxn acc i (txn # txns) ap rj =
     (case applyTransaction acc i txn of
        Inl e \<Rightarrow> (Some e, acc, ap, rj)
      | Inr (acc', Applied t) \<Rightarrow> forEachTxn acc' (i + 1) txns (ap @ [t]) rj
      | Inr (acc', NotApplied reason t) \<Rightarrow>
          forEachTxn acc' (i + 1) txns ap (rj @ [TxnRejected reason t]))"

definition processBankingTransaction :: "jsval \<Rightarrow> outcome" where
  "processBankingTransaction input =
     (case initAccount input of
        Inl err \<Rightarrow>
          \<lparr>account = None, applied = [],
           rejected = [SystemError (exn_message err)],
           logMessage = exn_message err\<rparr>
      | Inr (acc0, transactions) \<Rightarrow>
          (case forEachTxn acc0 0 transactions [] [] of
             (thrown, acc, ap, rj) \<Rightarrow>
               let rj' = (case thrown of
                            None \<Rightarrow> rj
                          | Some err \<Rightarrow> rj @ [SystemError (exn_message err)])
               in \<lparr>account = Some acc, applied = ap, rejected = rj',
                   logMessage =
                     [Lit ''Completed: '', Val (JNum (Fin (of_nat (length ap)))),
                      Lit '' applied, '', Val (JNum (Fin (of_nat (length rj')))),
                      Lit '' rejected.'']\<rparr>))"

section \<open>Reading the outcome\<close>

text \<open>
  The report reads \<^verbatim>\<open>t.index\<close>, \<^verbatim>\<open>t.type\<close> and \<^verbatim>\<open>t.amount\<close> of an applied entry and
  \<^verbatim>\<open>r.transaction.index\<close> of a rejected one. The amount of an applied entry is a finite
  number; \<open>position k\<close> is the number \<open>k\<close> as a value.
\<close>

definition entryType :: "props \<Rightarrow> jsval" where
  "entryType t = getProp (JObj t) ''type''"

definition entryAmount :: "props \<Rightarrow> rat" where
  "entryAmount t = (case getProp (JObj t) ''amount'' of JNum (Fin a) \<Rightarrow> a | _ \<Rightarrow> 0)"

definition entryIndex :: "props \<Rightarrow> jsval" where
  "entryIndex t = getProp (JObj t) ''index''"

definition position :: "nat \<Rightarrow> jsval" where
  "position k = JNum (Fin (of_nat k))"

fun rejectionIndex :: "rejection \<Rightarrow> jsval" where
  "rejectionIndex (TxnRejected reason t) = entryIndex t"
| "rejectionIndex (SystemError m) = JUndefined"




text \<open>The change of the balance that an applied entry stands for (line 79).\<close>

definition signedAmount :: "props \<Rightarrow> rat" where
  "signedAmount t =
     (if entryType t = JStr ''Deposit'' then entryAmount t else - entryAmount t)"

subsection \<open>The fixtures \<^verbatim>\<open>testCase2\<close> and \<^verbatim>\<open>testCase3\<close>\<close>

text \<open>The two fixtures of the script with rejections, each with its transactions apart.\<close>

definition testCase2_transactions :: "jsval list" where
  "testCase2_transactions =
     [JObj [(''type'', JStr ''Deposit''), (''amount'', JNum (Fin 500))],
      JObj [(''type'', JStr ''Withdraw''), (''amount'', JNum (Fin 3000))],
      JObj [(''type'', JStr ''Deposit''), (''amount'', JNum (Fin (- 100)))],
      JObj [(''type'', JStr ''Unknown''), (''amount'', JNum (Fin 50))],
      JObj [(''type'', JStr ''Withdraw'')],
      JObj [(''amount'', JNum (Fin 200))],
      JObj [(''type'', JStr ''Deposit''), (''amount'', JStr ''invalid'')]]"

definition testCase2 :: jsval where
  "testCase2 =
     JObj [(''accountNumber'', JStr ''ACC002''),
           (''accountHolder'', JStr ''Jane Smith''),
           (''initialBalance'', JStr ''2000''),
           (''currency'', JStr ''EUR''),
           (''transactions'', JArr testCase2_transactions)]"

definition testCase3_transactions :: "jsval list" where
  "testCase3_transactions =
     [JObj [(''type'', JStr ''Deposit''), (''amount'', JStr ''250.75'')],
      JObj [(''type'', JStr ''Withdraw''), (''amount'', JNum (Fin 0))],
      JObj [(''type'', JStr ''Withdraw''), (''amount'', JNum (Fin (75025 / 100)))]]"

definition testCase3 :: jsval where
  "testCase3 =
     JObj [(''accountNumber'', JStr ''ACC003''),
           (''accountHolder'', JStr ''Bob Johnson''),
           (''initialBalance'', JStr ''500.50''),
           (''currency'', JStr ''GBP''),
           (''transactions'', JArr testCase3_transactions)]"

section \<open>Facts about one transaction\<close>

lemma template_ok: "\<not> list_ex partRaises ps \<Longrightarrow> template ps = Inr ps"
  by (simp add: template_def)

lemma template_cases: "template ps = Inl TypeError \<or> template ps = Inr ps"
  by (simp add: template_def)

lemma isTransactionType_iff:
  "isTransactionType v \<longleftrightarrow> v = JStr ''Deposit'' \<or> v = JStr ''Withdraw''"
  by (cases v) (auto simp: isTransactionType_def)

lemma validate_ValidD:
  assumes "validateTransaction t = Inr (Valid a)"
  shows "(\<exists>ps. t = JObj ps) \<and> isTransactionType (getProp t ''type'')
         \<and> toNumber (getProp t ''amount'') = Inr (Some a) \<and> 0 < a"
proof -
  have obj: "\<exists>ps. t = JObj ps"
    using assms by (cases t) (simp_all add: validateTransaction_def)
  show ?thesis
    using assms obj
    by (auto simp: validateTransaction_def template_def
             split: if_splits sum.splits option.splits)
qed

lemma apply_AppliedD:
  assumes "applyTransaction acc i t = Inr (acc', Applied tr)"
  shows "\<exists>a. validateTransaction t = Inr (Valid a)
           \<and> acc' = acc\<lparr>balance := balance acc +
                          (if getProp t ''type'' = JStr ''Deposit'' then a else - a)\<rparr>
           \<and> tr = withIndex i (AList.update ''amount'' (JNum (Fin a)) (spread t))
           \<and> \<not> (getProp t ''type'' = JStr ''Withdraw'' \<and> a > balance acc)"
  using assms
  by (auto simp: applyTransaction_def template_def
           split: sum.splits validation.splits if_splits)

lemma apply_NotAppliedD:
  assumes "applyTransaction acc i t = Inr (acc', NotApplied m tr)"
  shows "acc' = acc \<and> tr = withIndex i (spread t)"
  using assms
  by (auto simp: applyTransaction_def template_def
           split: sum.splits validation.splits if_splits)


lemma apply_InvalidD:
  "applyTransaction acc i t = Inr (acc', NotApplied m tr) \<Longrightarrow>
     validateTransaction t = Inr (Invalid m) \<or>
     (\<exists>a. validateTransaction t = Inr (Valid a) \<and>
        m = [Lit ''Insufficient balance: required '', Val (JNum (Fin a)),
             Lit '', available '', Val (JNum (Fin (balance acc)))])"
  by (auto simp: applyTransaction_def template_def split: sum.splits validation.splits if_splits)

lemma entryIndex_withIndex: "entryIndex (withIndex i ps) = position (i + 1)"
  by (simp add: entryIndex_def withIndex_def position_def update_conv')

lemma entryType_applied:
  "entryType (withIndex i (AList.update ''amount'' v ps)) = getProp (JObj ps) ''type''"
  by (simp add: entryType_def withIndex_def update_conv')

lemma entryAmount_applied:
  "entryAmount (withIndex i (AList.update ''amount'' (JNum (Fin a)) ps)) = a"
  by (simp add: entryAmount_def withIndex_def update_conv')

lemma position_inj: "position j = position k \<Longrightarrow> j = k"
  by (simp add: position_def)

lemma apply_Applied_entry:
  assumes "applyTransaction acc i t = Inr (acc1, Applied tr)"
  shows "acc1 = acc\<lparr>balance := balance acc + signedAmount tr\<rparr>"
    and "entryType tr = JStr ''Deposit'' \<or> entryType tr = JStr ''Withdraw''"
    and "entryIndex tr = position (i + 1)"
    and "0 < entryAmount tr"
    and "validateTransaction t = Inr (Valid (entryAmount tr))"
    and "entryType tr = getProp t ''type''"
    and "entryType tr = JStr ''Withdraw'' \<Longrightarrow> entryAmount tr \<le> balance acc"
proof -
  from apply_AppliedD [OF assms] obtain a where
    v: "validateTransaction t = Inr (Valid a)" and
    acc1: "acc1 = acc\<lparr>balance := balance acc +
                     (if getProp t ''type'' = JStr ''Deposit'' then a else - a)\<rparr>" and
    tr: "tr = withIndex i (AList.update ''amount'' (JNum (Fin a)) (spread t))" and
    w: "\<not> (getProp t ''type'' = JStr ''Withdraw'' \<and> a > balance acc)"
    by blast
  from validate_ValidD [OF v] obtain ps where
    t: "t = JObj ps" and ty: "isTransactionType (getProp t ''type'')" and pos: "0 < a"
    by blast
  have am: "entryAmount tr = a" using tr by (simp add: entryAmount_applied)
  have et: "entryType tr = getProp t ''type''" using tr t by (simp add: entryType_applied)
  show "entryType tr = getProp t ''type''" by (rule et)
  show "entryType tr = JStr ''Deposit'' \<or> entryType tr = JStr ''Withdraw''"
    using ty et by (simp add: isTransactionType_iff)
  show "entryIndex tr = position (i + 1)" using tr by (simp add: entryIndex_withIndex)
  show "0 < entryAmount tr" using am pos by simp
  show "validateTransaction t = Inr (Valid (entryAmount tr))" using v am by simp
  show "acc1 = acc\<lparr>balance := balance acc + signedAmount tr\<rparr>"
    using acc1 am et by (simp add: signedAmount_def)
  show "entryAmount tr \<le> balance acc" if "entryType tr = JStr ''Withdraw''"
    using that w et am by simp
qed

text \<open>
  The validation of a transaction raises only when the string conversion of its type or
  of its amount does.
\<close>

lemma validate_no_raise:
  assumes "\<not> toStringRaises (getProp t ''type'')"
    and "\<not> toStringRaises (getProp t ''amount'')"
  shows "\<exists>v. validateTransaction t = Inr v"
  using assms
  by (auto simp: validateTransaction_def template_def toNumber_def Number_def
           split: sum.splits option.splits)

lemma validate_falsy_type:
  assumes "map_of ps ''type'' = Some v" "falsy v"
  shows "validateTransaction (JObj ps) = Inr (Invalid [Lit ''Missing transaction type''])"
  using assms by (simp add: validateTransaction_def)

lemma validate_UnknownD:
  assumes "validateTransaction t = Inr (Invalid (Lit ''Unknown transaction type: '' # rest))"
  shows "rest = [Val (getProp t ''type'')] \<and> \<not> falsy (getProp t ''type'')
     \<and> getProp t ''type'' \<noteq> JStr ''Deposit'' \<and> getProp t ''type'' \<noteq> JStr ''Withdraw''"
  using assms
  by (auto simp: validateTransaction_def template_def isTransactionType_iff
           split: if_splits sum.splits option.splits)

lemma validate_Valid_Withdraw:
  assumes "getProp t ''type'' = JStr ''Withdraw''"
    and "toNumber (getProp t ''amount'') = Inr (Some a)" and "0 < a"
  shows "validateTransaction t = Inr (Valid a)"
proof -
  obtain ps where t: "t = JObj ps" using assms(1) by (cases t) simp_all
  have "getProp t ''amount'' \<noteq> JUndefined" "getProp t ''amount'' \<noteq> JNull"
    using assms(2,3) by (auto simp: toNumber_def Number_def)
  then show ?thesis
    using assms t by (simp add: validateTransaction_def isTransactionType_iff)
qed

lemma validate_nonpositive:
  assumes "isTransactionType (getProp t ''type'')" and "getProp t ''amount'' \<noteq> JNull"
    and "toNumber (getProp t ''amount'') = Inr (Some a)" and "a \<le> 0"
  shows "validateTransaction t =
           Inr (Invalid [Lit ''Amount must be positive: '', Val (JNum (Fin a))])"
proof -
  obtain ps where t: "t = JObj ps"
    using assms(1) by (cases t) (simp_all add: isTransactionType_iff)
  have u: "getProp t ''amount'' \<noteq> JUndefined"
    using assms(3) by (auto simp: toNumber_def Number_def)
  have f: "\<not> falsy (getProp t ''type'')"
    using assms(1) by (auto simp: isTransactionType_iff)
  show ?thesis
    using assms t u f by (simp add: validateTransaction_def template_def)
qed

lemma apply_nonpositive:
  assumes "toNumber (getProp t ''amount'') = Inr (Some a)" and "a \<le> 0"
  shows "applyTransaction acc i t \<noteq> Inr (acc', Applied tr)"
proof
  assume "applyTransaction acc i t = Inr (acc', Applied tr)"
  from apply_Applied_entry(4,5) [OF this]
  have "0 < entryAmount tr" "validateTransaction t = Inr (Valid (entryAmount tr))" .
  with validate_ValidD [of t "entryAmount tr"] assms show False by simp
qed

section \<open>Facts about the loop\<close>

text \<open>
  The arrays only grow: a run that starts with \<open>ap\<close> and \<open>rj\<close> appends to them what the
  run from empty arrays produces.
\<close>

lemma forEachTxn_app:
  "forEachTxn acc i ts (ap0 @ ap) (rj0 @ rj) =
     (case forEachTxn acc i ts ap rj of
        (ex, acc', ap', rj') \<Rightarrow> (ex, acc', ap0 @ ap', rj0 @ rj'))"
proof (induction ts arbitrary: acc i ap rj)
  case Nil
  show ?case by simp
next
  case (Cons t ts)
  have a: "forEachTxn acc1 k ts (ap0 @ ap @ [tr]) (rj0 @ rj) =
     (case forEachTxn acc1 k ts (ap @ [tr]) rj of
        (ex, acc', ap', rj') \<Rightarrow> (ex, acc', ap0 @ ap', rj0 @ rj'))" for acc1 k tr
    using Cons.IH [of acc1 k "ap @ [tr]" rj] by simp
  have b: "forEachTxn acc1 k ts (ap0 @ ap) (rj0 @ rj @ [r]) =
     (case forEachTxn acc1 k ts ap (rj @ [r]) of
        (ex, acc', ap', rj') \<Rightarrow> (ex, acc', ap0 @ ap', rj0 @ rj'))" for acc1 k r
    using Cons.IH [of acc1 k ap "rj @ [r]"] by simp
  show ?case
    by (simp add: a b split: sum.splits result.splits prod.splits)
qed

lemma forEachTxn_ConsE:
  assumes "forEachTxn acc i (t # ts) [] [] = (ex, acc', nap, nrj)"
  obtains
    (raised) e where "applyTransaction acc i t = Inl e" "ex = Some e" "acc' = acc"
      "nap = []" "nrj = []"
  | (applied) acc1 tr nap1 where "applyTransaction acc i t = Inr (acc1, Applied tr)"
      "forEachTxn acc1 (i + 1) ts [] [] = (ex, acc', nap1, nrj)" "nap = tr # nap1"
  | (rejected) acc1 m tr nrj1 where "applyTransaction acc i t = Inr (acc1, NotApplied m tr)"
      "forEachTxn acc1 (i + 1) ts [] [] = (ex, acc', nap, nrj1)"
      "nrj = TxnRejected m tr # nrj1"
proof (cases "applyTransaction acc i t")
  case (Inl e)
  with assms have "ex = Some e" "acc' = acc" "nap = []" "nrj = []" by auto
  then show ?thesis by (rule raised [OF Inl])
next
  case (Inr p)
  obtain acc1 r where p: "p = (acc1, r)" by (cases p)
  obtain ex1 a1 nap1 nrj1 where run: "forEachTxn acc1 (i + 1) ts [] [] = (ex1, a1, nap1, nrj1)"
    by (cases "forEachTxn acc1 (i + 1) ts [] []") auto
  show ?thesis
  proof (cases r)
    case (Applied tr)
    have step: "applyTransaction acc i t = Inr (acc1, Applied tr)"
      using Inr p Applied by simp
    have "forEachTxn acc1 (i + 1) ts ([tr] @ []) ([] @ []) = (ex1, a1, tr # nap1, nrj1)"
      unfolding forEachTxn_app using run by simp
    with assms step have "ex1 = ex" "a1 = acc'" "nap = tr # nap1" "nrj1 = nrj" by auto
    with run show ?thesis by (auto intro: applied [OF step])
  next
    case (NotApplied m tr)
    have step: "applyTransaction acc i t = Inr (acc1, NotApplied m tr)"
      using Inr p NotApplied by simp
    have "forEachTxn acc1 (i + 1) ts ([] @ []) ([TxnRejected m tr] @ []) =
            (ex1, a1, nap1, TxnRejected m tr # nrj1)"
      unfolding forEachTxn_app using run by simp
    with assms step have "ex1 = ex" "a1 = acc'" "nap1 = nap" "nrj = TxnRejected m tr # nrj1"
      by auto
    with run show ?thesis by (auto intro: rejected [OF step])
  qed
qed



lemma run_frame:
  "forEachTxn acc i ts [] [] = (ex, acc', nap, nrj) \<Longrightarrow>
     acc' = acc\<lparr>balance := foldl (\<lambda>b t. b + signedAmount t) (balance acc) nap\<rparr>"
proof (induction ts arbitrary: acc i nap nrj)
  case Nil
  then show ?case by simp
next
  case (Cons t ts)
  from Cons.prems show ?case
  proof (cases rule: forEachTxn_ConsE)
    case (raised e)
    then show ?thesis by simp
  next
    case (applied acc1 tr nap1)
    from Cons.IH [OF applied(2)] apply_Applied_entry(1) [OF applied(1)] applied(3)
    show ?thesis by simp
  next
    case (rejected acc1 m tr nrj1)
    from apply_NotAppliedD [OF rejected(1)] have "acc1 = acc" by simp
    with Cons.IH [OF rejected(2)] show ?thesis by simp
  qed
qed



lemma run_applied_origin:
  "forEachTxn acc i ts [] [] = (ex, acc', nap, nrj) \<Longrightarrow> e \<in> set nap \<Longrightarrow>
     \<exists>j<length ts. entryIndex e = position (i + j + 1)
        \<and> validateTransaction (ts ! j) = Inr (Valid (entryAmount e))"
proof (induction ts arbitrary: acc i nap nrj)
  case Nil
  then show ?case by simp
next
  case (Cons t ts)
  from Cons.prems(1) show ?case
  proof (cases rule: forEachTxn_ConsE)
    case (raised e')
    with Cons.prems(2) show ?thesis by simp
  next
    case (applied acc1 tr nap1)
    show ?thesis
    proof (cases "e = tr")
      case True
      with apply_Applied_entry(3,5) [OF applied(1)]
      have "entryIndex e = position (i + 0 + 1) \<and>
            validateTransaction ((t # ts) ! 0) = Inr (Valid (entryAmount e))" by simp
      then show ?thesis by blast
    next
      case False
      with Cons.prems(2) applied(3) have "e \<in> set nap1" by simp
      from Cons.IH [OF applied(2) this] obtain j where
        "j < length ts" "entryIndex e = position (i + 1 + j + 1)"
        "validateTransaction (ts ! j) = Inr (Valid (entryAmount e))" by blast
      then have "Suc j < length (t # ts) \<and> entryIndex e = position (i + Suc j + 1)
        \<and> validateTransaction ((t # ts) ! Suc j) = Inr (Valid (entryAmount e))" by simp
      then show ?thesis by blast
    qed
  next
    case (rejected acc1 m tr nrj1)
    from Cons.IH [OF rejected(2) Cons.prems(2)] obtain j where
      "j < length ts" "entryIndex e = position (i + 1 + j + 1)"
      "validateTransaction (ts ! j) = Inr (Valid (entryAmount e))" by blast
    then have "Suc j < length (t # ts) \<and> entryIndex e = position (i + Suc j + 1)
      \<and> validateTransaction ((t # ts) ! Suc j) = Inr (Valid (entryAmount e))" by simp
    then show ?thesis by blast
  qed
qed

lemma run_applied_sorted:
  "forEachTxn acc i ts [] [] = (ex, acc', nap, nrj) \<Longrightarrow>
     \<exists>ks. map entryIndex nap = map position ks \<and> sorted_wrt (<) ks
        \<and> (\<forall>k\<in>set ks. i < k \<and> k \<le> i + length ts)"
proof (induction ts arbitrary: acc i nap nrj)
  case Nil
  then show ?case by simp
next
  case (Cons t ts)
  from Cons.prems show ?case
  proof (cases rule: forEachTxn_ConsE)
    case (raised e)
    then show ?thesis by simp
  next
    case (applied acc1 tr nap1)
    from Cons.IH [OF applied(2)] obtain ks where
      ks: "map entryIndex nap1 = map position ks" "sorted_wrt (<) ks"
          "\<forall>k\<in>set ks. i + 1 < k \<and> k \<le> i + 1 + length ts" by blast
    have "map entryIndex nap = map position ((i + 1) # ks) \<and> sorted_wrt (<) ((i + 1) # ks)
        \<and> (\<forall>k\<in>set ((i + 1) # ks). i < k \<and> k \<le> i + length (t # ts))"
      using ks applied(3) apply_Applied_entry(3) [OF applied(1)] by auto
    then show ?thesis by blast
  next
    case (rejected acc1 m tr nrj1)
    from Cons.IH [OF rejected(2)] obtain ks where
      ks: "map entryIndex nap = map position ks" "sorted_wrt (<) ks"
          "\<forall>k\<in>set ks. i + 1 < k \<and> k \<le> i + 1 + length ts" by blast
    have "map entryIndex nap = map position ks \<and> sorted_wrt (<) ks
        \<and> (\<forall>k\<in>set ks. i < k \<and> k \<le> i + length (t # ts))"
      using ks by auto
    then show ?thesis by blast
  qed
qed


lemma run_Cons_rejected:
  assumes "applyTransaction acc i t = Inr (acc, NotApplied m tr)"
  shows "\<exists>ex acc' nap nrj.
           forEachTxn acc i (t # later) ap rj = (ex, acc', ap @ nap, rj @ TxnRejected m tr # nrj)
           \<and> position (i + 1) \<notin> set (map entryIndex nap)"
proof -
  obtain ex acc' nap nrj where run: "forEachTxn acc (i + 1) later [] [] = (ex, acc', nap, nrj)"
    by (cases "forEachTxn acc (i + 1) later [] []") auto
  from run_applied_sorted [OF run] obtain ks where
    ks: "map entryIndex nap = map position ks" "\<forall>k\<in>set ks. i + 1 < k \<and> k \<le> i + 1 + length later"
    by blast
  have notin: "position (i + 1) \<notin> set (map entryIndex nap)"
  proof
    assume "position (i + 1) \<in> set (map entryIndex nap)"
    then obtain k where "k \<in> set ks" "position (i + 1) = position k"
      unfolding ks(1) by auto
    with ks(2) position_inj show False by fastforce
  qed
  have "forEachTxn acc (i + 1) later (ap @ []) ((rj @ [TxnRejected m tr]) @ []) =
          (ex, acc', ap @ nap, (rj @ [TxnRejected m tr]) @ nrj)"
    unfolding forEachTxn_app using run by simp
  then have "forEachTxn acc i (t # later) ap rj =
          (ex, acc', ap @ nap, rj @ TxnRejected m tr # nrj)"
    using assms by simp
  with notin show ?thesis by blast
qed

section \<open>Facts about the whole run\<close>

text \<open>
  The checks under which an input is structurally valid, and what \<open>initAccount\<close> returns then.
\<close>

lemma initAccount_valid:
  assumes "\<not> falsy input" "typeofObject input"
    and "\<not> falsy (getProp input ''accountNumber'')"
    and "\<not> falsy (getProp input ''accountHolder'')"
    and "getProp input ''initialBalance'' \<noteq> JUndefined"
    and "getProp input ''initialBalance'' \<noteq> JNull"
    and "\<not> falsy (getProp input ''currency'')"
    and "getProp input ''transactions'' = JArr txns"
    and "toNumber (getProp input ''initialBalance'') = Inr (Some b)"
  shows "initAccount input =
           Inr (\<lparr>accountNumber = getProp input ''accountNumber'',
                 accountHolder = getProp input ''accountHolder'',
                 currency = getProp input ''currency'',
                 initialBalance = b, balance = b\<rparr>, txns)"
  using assms by (simp add: initAccount_def)

lemma initAccount_InrD:
  assumes "initAccount input = Inr (acc0, txns)"
  shows "toNumber (getProp input ''initialBalance'') = Inr (Some (initialBalance acc0))"
    and "balance acc0 = initialBalance acc0"
    and "getProp input ''transactions'' = JArr txns"
    and "accountNumber acc0 = getProp input ''accountNumber''"
    and "accountHolder acc0 = getProp input ''accountHolder''"
    and "currency acc0 = getProp input ''currency''"
  using assms
  by (auto simp: initAccount_def template_def
           split: if_splits jsval.splits sum.splits option.splits)

lemma process_valid:
  assumes "initAccount input = Inr (acc0, txns)"
    and "forEachTxn acc0 0 txns [] [] = (ex, acc, nap, nrj)"
  shows "account (processBankingTransaction input) = Some acc"
    and "applied (processBankingTransaction input) = nap"
    and "rejected (processBankingTransaction input) =
           (case ex of None \<Rightarrow> nrj | Some e \<Rightarrow> nrj @ [SystemError (exn_message e)])"
  using assms by (simp_all add: processBankingTransaction_def Let_def)

lemma process_invalid:
  assumes "initAccount input = Inl e"
  shows "processBankingTransaction input =
           \<lparr>account = None, applied = [], rejected = [SystemError (exn_message e)],
            logMessage = exn_message e\<rparr>"
  using assms by (simp add: processBankingTransaction_def)

lemma toNumber_cases:
  "toNumber v = Inl TypeError \<or> toNumber v = Inr None \<or> (\<exists>b. toNumber v = Inr (Some b))"
  by (cases "ToNumber v") (auto simp: toNumber_def Number_def)

lemma toNumber_None_template:
  "toNumber v = Inr None \<Longrightarrow> template [Lit s, Val v] = Inr [Lit s, Val v]"
  by (auto simp: toNumber_def Number_def template_def split: if_splits)

lemma initAccount_Inl:
  assumes "falsy input \<or> \<not> typeofObject input
     \<or> falsy (getProp input ''accountNumber'')
     \<or> falsy (getProp input ''accountHolder'')
     \<or> getProp input ''initialBalance'' = JUndefined
     \<or> getProp input ''initialBalance'' = JNull
     \<or> falsy (getProp input ''currency'')
     \<or> \<not> isArray (getProp input ''transactions'')
     \<or> (\<forall>b. toNumber (getProp input ''initialBalance'') \<noteq> Inr (Some b))"
  shows "\<exists>e. initAccount input = Inl e"
proof -
  have "initAccount input \<noteq> Inr (acc0, txns)" for acc0 txns
  proof
    assume ok: "initAccount input = Inr (acc0, txns)"
    have "\<not> falsy input \<and> typeofObject input
     \<and> \<not> falsy (getProp input ''accountNumber'')
     \<and> \<not> falsy (getProp input ''accountHolder'')
     \<and> getProp input ''initialBalance'' \<noteq> JUndefined
     \<and> getProp input ''initialBalance'' \<noteq> JNull
     \<and> \<not> falsy (getProp input ''currency'')"
      using ok by (auto simp: initAccount_def split: if_splits)
    moreover have "isArray (getProp input ''transactions'')"
      using initAccount_InrD(3) [OF ok] by simp
    moreover have "toNumber (getProp input ''initialBalance'') = Inr (Some (initialBalance acc0))"
      by (rule initAccount_InrD(1) [OF ok])
    ultimately show False using assms by blast
  qed
  then show ?thesis by (cases "initAccount input") auto
qed

lemma initAccount_order:
  "initAccount input =
     (if falsy input \<or> \<not> typeofObject input then
        Inl (Error [Lit ''Input must be a valid object''])
      else if falsy (getProp input ''accountNumber'') then
        Inl (Error [Lit ''Missing account number''])
      else if falsy (getProp input ''accountHolder'') then
        Inl (Error [Lit ''Missing account holder''])
      else if getProp input ''initialBalance'' = JUndefined
              \<or> getProp input ''initialBalance'' = JNull then
        Inl (Error [Lit ''Missing initial balance''])
      else if falsy (getProp input ''currency'') then
        Inl (Error [Lit ''Missing currency''])
      else if \<not> isArray (getProp input ''transactions'') then
        Inl (Error [Lit ''Transactions must be an array''])
      else if toNumber (getProp input ''initialBalance'') = Inr None then
        Inl (Error [Lit ''Invalid initial balance: '', Val (getProp input ''initialBalance'')])
      else initAccount input)"
  by (auto simp: initAccount_def toNumber_None_template split: jsval.splits)

section \<open>Facts about the coercion of strings\<close>

















section \<open>Evaluating the fixtures\<close>

lemmas parse_defs = StringToNumber_def trimWhiteSpace_def StrWhiteSpaceChar_def
  NonDecimalIntegerLiteral_def StrDecimalLiteral_def StrUnsignedDecimalLiteral_def
  isDigitIn_def isDigits_def digitIn_def digitTable_def digitsValue_def ExponentPart_def
  SignedInteger_def power10_def overflow_def

lemmas run_defs = processBankingTransaction_def applyTransaction_def validateTransaction_def
  template_def isTransactionType_def withIndex_def

lemma toNumber_500_50: "toNumber (JStr ''500.50'') = Inr (Some (1001 / 2))"
  by (simp add: toNumber_def Number_def parse_defs)

lemma toNumber_250_75: "toNumber (JStr ''250.75'') = Inr (Some (1003 / 4))"
  by (simp add: toNumber_def Number_def parse_defs)

lemma toNumber_2000: "toNumber (JStr ''2000'') = Inr (Some 2000)"
  by (simp add: toNumber_def Number_def parse_defs)

lemma toNumber_invalid: "toNumber (JStr ''invalid'') = Inr None"
  by (simp add: toNumber_def Number_def parse_defs)

lemma toNumber_Fin: "toNumber (JNum (Fin r)) = Inr (Some r)"
  by (simp add: toNumber_def Number_def)

lemma initAccount_testCase2:
  "initAccount testCase2 =
     Inr (\<lparr>accountNumber = JStr ''ACC002'', accountHolder = JStr ''Jane Smith'',
           currency = JStr ''EUR'', initialBalance = 2000, balance = 2000\<rparr>,
          testCase2_transactions)"
  by (simp add: initAccount_def testCase2_def toNumber_2000)


text \<open>
  The run of \<^verbatim>\<open>testCase2\<close>: the first deposit is applied, the six other transactions
  are rejected, each for its own reason, and the balance ends at 2500.
\<close>

lemma process_testCase2:
  "account (processBankingTransaction testCase2) =
     Some \<lparr>accountNumber = JStr ''ACC002'', accountHolder = JStr ''Jane Smith'',
           currency = JStr ''EUR'', initialBalance = 2000, balance = 2500\<rparr>
   \<and> map entryIndex (applied (processBankingTransaction testCase2)) = [position 1]
   \<and> map (\<lambda>r. case r of TxnRejected reason t \<Rightarrow> reason | SystemError m \<Rightarrow> m)
         (rejected (processBankingTransaction testCase2)) =
       [[Lit ''Insufficient balance: required '', Val (JNum (Fin 3000)),
         Lit '', available '', Val (JNum (Fin 2500))],
        [Lit ''Amount must be positive: '', Val (JNum (Fin (- 100)))],
        [Lit ''Unknown transaction type: '', Val (JStr ''Unknown'')],
        [Lit ''Missing transaction amount''],
        [Lit ''Missing transaction type''],
        [Lit ''Invalid amount: '', Val (JStr ''invalid'')]]"
  by (simp add: initAccount_testCase2 testCase2_transactions_def run_defs
                toNumber_Fin toNumber_invalid entryIndex_def position_def)

lemma initAccount_testCase3:
  "initAccount testCase3 =
     Inr (\<lparr>accountNumber = JStr ''ACC003'', accountHolder = JStr ''Bob Johnson'',
           currency = JStr ''GBP'', initialBalance = 1001 / 2, balance = 1001 / 2\<rparr>,
          testCase3_transactions)"
  by (simp add: initAccount_def testCase3_def toNumber_500_50)

lemma process_testCase3:
  "processBankingTransaction testCase3 =
     \<lparr>account =
        Some \<lparr>accountNumber = JStr ''ACC003'', accountHolder = JStr ''Bob Johnson'',
              currency = JStr ''GBP'', initialBalance = 1001 / 2, balance = 1\<rparr>,
      applied =
        [[(''type'', JStr ''Deposit''), (''amount'', JNum (Fin (25075 / 100))),
          (''index'', JNum (Fin 1))],
         [(''type'', JStr ''Withdraw''), (''amount'', JNum (Fin (75025 / 100))),
          (''index'', JNum (Fin 3))]],
      rejected =
        [TxnRejected [Lit ''Amount must be positive: '', Val (JNum (Fin 0))]
           [(''type'', JStr ''Withdraw''), (''amount'', JNum (Fin 0)),
            (''index'', JNum (Fin 2))]],
      logMessage =
        [Lit ''Completed: '', Val (JNum (Fin 2)), Lit '' applied, '',
         Val (JNum (Fin 1)), Lit '' rejected.'']\<rparr>"
  by (simp add: initAccount_testCase3 testCase3_transactions_def run_defs
                toNumber_250_75 toNumber_Fin)

section \<open>The claims\<close>

text \<open>
  An input is structurally valid when the checks of lines 100 to 115 pass, that is, when
  \<open>initAccount\<close> returns the new account \<open>acc0\<close> and the list \<open>txns\<close> of transactions.
\<close>

subsection \<open>C1: the ending balance\<close>



subsection \<open>C2: a Withdraw against the running balance\<close>

text \<open>
  C2, as stated, fails where the amount is not positive: the check of the amount's sign
  comes first. With a balance of 0, a Withdraw of 0 equals the balance and is rejected,
  not applied; with a balance of -100, a Withdraw of -50 exceeds the balance and is
  rejected with ``Amount must be positive'', not with ``Insufficient balance''.
\<close>

theorem withdraw_against_running_balance_counterexample:
  "toNumber (JNum (Fin 0)) = Inr (Some 0)
   \<and> applyTransaction
       \<lparr>accountNumber = JStr ''ACC003'', accountHolder = JStr ''Bob Johnson'',
        currency = JStr ''GBP'', initialBalance = 0, balance = 0\<rparr> 0
       (JObj [(''type'', JStr ''Withdraw''), (''amount'', JNum (Fin 0))]) =
     Inr (\<lparr>accountNumber = JStr ''ACC003'', accountHolder = JStr ''Bob Johnson'',
           currency = JStr ''GBP'', initialBalance = 0, balance = 0\<rparr>,
          NotApplied [Lit ''Amount must be positive: '', Val (JNum (Fin 0))]
            [(''type'', JStr ''Withdraw''), (''amount'', JNum (Fin 0)),
             (''index'', JNum (Fin 1))])
   \<and> toNumber (JNum (Fin (- 50))) = Inr (Some (- 50))
   \<and> (- 100 :: rat) < - 50
   \<and> applyTransaction
       \<lparr>accountNumber = JStr ''ACC003'', accountHolder = JStr ''Bob Johnson'',
        currency = JStr ''GBP'', initialBalance = - 100, balance = - 100\<rparr> 0
       (JObj [(''type'', JStr ''Withdraw''), (''amount'', JNum (Fin (- 50)))]) =
     Inr (\<lparr>accountNumber = JStr ''ACC003'', accountHolder = JStr ''Bob Johnson'',
           currency = JStr ''GBP'', initialBalance = - 100, balance = - 100\<rparr>,
          NotApplied [Lit ''Amount must be positive: '', Val (JNum (Fin (- 50)))]
            [(''type'', JStr ''Withdraw''), (''amount'', JNum (Fin (- 50))),
             (''index'', JNum (Fin 1))])"
  by (simp add: run_defs toNumber_Fin)

text \<open>
  C2, amended. A Withdraw whose coerced amount is positive and strictly exceeds the
  balance of the account at the time it is evaluated is rejected with reason
  ``Insufficient balance: required \<open>amount\<close>, available \<open>balance\<close>'', whatever
  transactions follow it: the loop puts the rejection into the rejected array and no
  applied entry has its position. A Withdraw whose coerced amount is positive and equal
  to the balance is applied and leaves the balance at zero.
\<close>

theorem withdraw_against_running_balance:
  assumes "getProp t ''type'' = JStr ''Withdraw''"
    and "toNumber (getProp t ''amount'') = Inr (Some a)"
    and "0 < a"
  shows "(balance acc < a \<longrightarrow>
        applyTransaction acc i t =
          Inr (acc, NotApplied [Lit ''Insufficient balance: required '', Val (JNum (Fin a)),
                                Lit '', available '', Val (JNum (Fin (balance acc)))]
                      (withIndex i (spread t)))
        \<and> (\<forall>later ap rj. \<exists>ex acc' nap nrj.
              forEachTxn acc i (t # later) ap rj =
                (ex, acc', ap @ nap,
                 rj @ TxnRejected [Lit ''Insufficient balance: required '', Val (JNum (Fin a)),
                                   Lit '', available '', Val (JNum (Fin (balance acc)))]
                        (withIndex i (spread t)) # nrj)
              \<and> position (i + 1) \<notin> set (map entryIndex nap)))
     \<and> (a = balance acc \<longrightarrow>
        applyTransaction acc i t =
          Inr (acc\<lparr>balance := 0\<rparr>,
               Applied (withIndex i (AList.update ''amount'' (JNum (Fin a)) (spread t)))))"
proof -
  have v: "validateTransaction t = Inr (Valid a)"
    by (rule validate_Valid_Withdraw [OF assms])
  have rej: "applyTransaction acc i t =
          Inr (acc, NotApplied [Lit ''Insufficient balance: required '', Val (JNum (Fin a)),
                                Lit '', available '', Val (JNum (Fin (balance acc)))]
                      (withIndex i (spread t)))" if "balance acc < a"
    using v assms(1) that by (simp add: applyTransaction_def template_def)
  have app: "applyTransaction acc i t =
          Inr (acc\<lparr>balance := 0\<rparr>,
               Applied (withIndex i (AList.update ''amount'' (JNum (Fin a)) (spread t))))"
    if "a = balance acc"
    using v assms(1) that by (simp add: applyTransaction_def)
  from rej app run_Cons_rejected [OF rej] show ?thesis by blast
qed

theorem withdraw_against_running_balance_witness:
  "applyTransaction
     \<lparr>accountNumber = JStr ''ACC002'', accountHolder = JStr ''Jane Smith'',
      currency = JStr ''EUR'', initialBalance = 2000, balance = 2500\<rparr> 1
     (JObj [(''type'', JStr ''Withdraw''), (''amount'', JNum (Fin 3000))]) =
     Inr (\<lparr>accountNumber = JStr ''ACC002'', accountHolder = JStr ''Jane Smith'',
           currency = JStr ''EUR'', initialBalance = 2000, balance = 2500\<rparr>,
          NotApplied [Lit ''Insufficient balance: required '', Val (JNum (Fin 3000)),
                      Lit '', available '', Val (JNum (Fin 2500))]
            [(''type'', JStr ''Withdraw''), (''amount'', JNum (Fin 3000)),
             (''index'', JNum (Fin 2))])
   \<and> (\<exists>ex acc' nap nrj.
         forEachTxn
           \<lparr>accountNumber = JStr ''ACC002'', accountHolder = JStr ''Jane Smith'',
            currency = JStr ''EUR'', initialBalance = 2000, balance = 2500\<rparr> 1
           [JObj [(''type'', JStr ''Withdraw''), (''amount'', JNum (Fin 3000))],
            JObj [(''type'', JStr ''Deposit''), (''amount'', JNum (Fin 1000))]] [] [] =
           (ex, acc', nap,
            TxnRejected [Lit ''Insufficient balance: required '', Val (JNum (Fin 3000)),
                         Lit '', available '', Val (JNum (Fin 2500))]
              [(''type'', JStr ''Withdraw''), (''amount'', JNum (Fin 3000)),
               (''index'', JNum (Fin 2))] # nrj)
         \<and> position 2 \<notin> set (map entryIndex nap))
   \<and> applyTransaction
       \<lparr>accountNumber = JStr ''ACC002'', accountHolder = JStr ''Jane Smith'',
        currency = JStr ''EUR'', initialBalance = 2000, balance = 200\<rparr> 0
       (JObj [(''type'', JStr ''Withdraw''), (''amount'', JNum (Fin 200))]) =
     Inr (\<lparr>accountNumber = JStr ''ACC002'', accountHolder = JStr ''Jane Smith'',
           currency = JStr ''EUR'', initialBalance = 2000, balance = 0\<rparr>,
          Applied [(''type'', JStr ''Withdraw''), (''amount'', JNum (Fin 200)),
                   (''index'', JNum (Fin 1))])"
proof -
  let ?w = "JObj [(''type'', JStr ''Withdraw''), (''amount'', JNum (Fin 3000))]"
  let ?acc = "\<lparr>accountNumber = JStr ''ACC002'', accountHolder = JStr ''Jane Smith'',
               currency = JStr ''EUR'', initialBalance = 2000, balance = 2500\<rparr>"
  have w1: "getProp ?w ''type'' = JStr ''Withdraw''"
    and w2: "toNumber (getProp ?w ''amount'') = Inr (Some 3000)"
    and w3: "(0 :: rat) < 3000"
    by (simp_all add: toNumber_Fin)
  have less: "balance ?acc < 3000" by simp
  note over = withdraw_against_running_balance [OF w1 w2 w3, of ?acc 1, THEN conjunct1,
      rule_format, OF less]
  let ?v = "JObj [(''type'', JStr ''Withdraw''), (''amount'', JNum (Fin 200))]"
  let ?acc2 = "\<lparr>accountNumber = JStr ''ACC002'', accountHolder = JStr ''Jane Smith'',
               currency = JStr ''EUR'', initialBalance = 2000, balance = 200\<rparr>"
  have v1: "getProp ?v ''type'' = JStr ''Withdraw''"
    and v2: "toNumber (getProp ?v ''amount'') = Inr (Some 200)"
    and v3: "(0 :: rat) < 200"
    by (simp_all add: toNumber_Fin)
  have same: "200 = balance ?acc2" by simp
  note drain = withdraw_against_running_balance [OF v1 v2 v3, of ?acc2 0, THEN conjunct2,
      rule_format, OF same]
  have a: "applyTransaction ?acc 1 ?w =
     Inr (?acc,
          NotApplied [Lit ''Insufficient balance: required '', Val (JNum (Fin 3000)),
                      Lit '', available '', Val (JNum (Fin 2500))]
            [(''type'', JStr ''Withdraw''), (''amount'', JNum (Fin 3000)),
             (''index'', JNum (Fin 2))])"
    using over [THEN conjunct1] by (simp add: withIndex_def)
  have b: "\<exists>ex acc' nap nrj.
         forEachTxn ?acc 1
           [?w, JObj [(''type'', JStr ''Deposit''), (''amount'', JNum (Fin 1000))]] [] [] =
           (ex, acc', nap,
            TxnRejected [Lit ''Insufficient balance: required '', Val (JNum (Fin 3000)),
                         Lit '', available '', Val (JNum (Fin 2500))]
              [(''type'', JStr ''Withdraw''), (''amount'', JNum (Fin 3000)),
               (''index'', JNum (Fin 2))] # nrj)
         \<and> position 2 \<notin> set (map entryIndex nap)"
  proof -
    have wi: "withIndex 1 (spread ?w) =
        [(''type'', JStr ''Withdraw''), (''amount'', JNum (Fin 3000)),
         (''index'', JNum (Fin 2))]"
      by (simp add: withIndex_def)
    have bal: "balance ?acc = 2500" by simp
    have two: "(1 :: nat) + 1 = 2" by simp
    from over [THEN conjunct2, rule_format,
        of "[JObj [(''type'', JStr ''Deposit''), (''amount'', JNum (Fin 1000))]]" "[]" "[]"]
    show ?thesis by (simp only: wi bal two append_Nil)
  qed
  have c: "applyTransaction ?acc2 0 ?v =
     Inr (\<lparr>accountNumber = JStr ''ACC002'', accountHolder = JStr ''Jane Smith'',
           currency = JStr ''EUR'', initialBalance = 2000, balance = 0\<rparr>,
          Applied [(''type'', JStr ''Withdraw''), (''amount'', JNum (Fin 200)),
                   (''index'', JNum (Fin 1))])"
    using drain by (simp add: withIndex_def)
  from a b c show ?thesis by blast
qed

subsection \<open>C3: the coercion function\<close>




subsection \<open>C4: amounts that are not positive\<close>

text \<open>
  C4, as stated, fails in its reason: the checks of the type come before the check of
  the amount. The transaction \<^verbatim>\<open>{ type: "Unknown", amount: 0 }\<close> has the coerced amount
  0 and is rejected with ``Unknown transaction type: Unknown''; \<^verbatim>\<open>{ amount: -5 }\<close> is
  rejected with ``Missing transaction type''.
\<close>

theorem nonpositive_amount_never_applied_counterexample:
  "toNumber (getProp (JObj [(''type'', JStr ''Unknown''), (''amount'', JNum (Fin 0))])
      ''amount'') = Inr (Some 0)
   \<and> applyTransaction
       \<lparr>accountNumber = JStr ''ACC002'', accountHolder = JStr ''Jane Smith'',
        currency = JStr ''EUR'', initialBalance = 2000, balance = 2500\<rparr> 3
       (JObj [(''type'', JStr ''Unknown''), (''amount'', JNum (Fin 0))]) =
     Inr (\<lparr>accountNumber = JStr ''ACC002'', accountHolder = JStr ''Jane Smith'',
           currency = JStr ''EUR'', initialBalance = 2000, balance = 2500\<rparr>,
          NotApplied [Lit ''Unknown transaction type: '', Val (JStr ''Unknown'')]
            [(''type'', JStr ''Unknown''), (''amount'', JNum (Fin 0)),
             (''index'', JNum (Fin 4))])
   \<and> toNumber (getProp (JObj [(''amount'', JNum (Fin (- 5)))]) ''amount'') = Inr (Some (- 5))
   \<and> applyTransaction
       \<lparr>accountNumber = JStr ''ACC002'', accountHolder = JStr ''Jane Smith'',
        currency = JStr ''EUR'', initialBalance = 2000, balance = 2500\<rparr> 5
       (JObj [(''amount'', JNum (Fin (- 5)))]) =
     Inr (\<lparr>accountNumber = JStr ''ACC002'', accountHolder = JStr ''Jane Smith'',
           currency = JStr ''EUR'', initialBalance = 2000, balance = 2500\<rparr>,
          NotApplied [Lit ''Missing transaction type'']
            [(''amount'', JNum (Fin (- 5))), (''index'', JNum (Fin 6))])"
  by (simp add: run_defs toNumber_Fin)

text \<open>
  C4, amended. A transaction whose amount coerces to a number less than or equal to 0
  (zero included) is never applied: \<^verbatim>\<open>applyTransaction\<close> never returns it as applied,
  it leaves the account as it is, and in a run no applied entry has the position of such
  a transaction. When its type is Deposit or Withdraw and its amount is not \<^verbatim>\<open>null\<close>,
  so that the earlier checks pass, it is rejected with reason
  ``Amount must be positive: \<open>amount\<close>''.
\<close>

theorem nonpositive_amount_never_applied:
  assumes "toNumber (getProp t ''amount'') = Inr (Some a)" and "a \<le> 0"
  shows "(\<forall>acc i acc' tr. applyTransaction acc i t \<noteq> Inr (acc', Applied tr))
     \<and> (\<forall>acc i acc' r. applyTransaction acc i t = Inr (acc', r) \<longrightarrow> acc' = acc)
     \<and> (isTransactionType (getProp t ''type'') \<and> getProp t ''amount'' \<noteq> JNull \<longrightarrow>
          (\<forall>acc i. applyTransaction acc i t =
             Inr (acc, NotApplied [Lit ''Amount must be positive: '', Val (JNum (Fin a))]
                         (withIndex i (spread t)))))
     \<and> (\<forall>input acc0 txns k.
          initAccount input = Inr (acc0, txns) \<and> k < length txns \<and> txns ! k = t \<longrightarrow>
          position (k + 1) \<notin> set (map entryIndex (applied (processBankingTransaction input))))"
proof -
  have p1: "applyTransaction acc i t \<noteq> Inr (acc', Applied tr)" for acc i acc' tr
    by (rule apply_nonpositive [OF assms])
  have p2: "acc' = acc" if "applyTransaction acc i t = Inr (acc', r)" for acc i acc' r
  proof (cases r)
    case (Applied tr)
    with that p1 show ?thesis by simp
  next
    case (NotApplied m tr)
    with that apply_NotAppliedD show ?thesis by blast
  qed
  have p3: "applyTransaction acc i t =
             Inr (acc, NotApplied [Lit ''Amount must be positive: '', Val (JNum (Fin a))]
                         (withIndex i (spread t)))"
    if "isTransactionType (getProp t ''type'') \<and> getProp t ''amount'' \<noteq> JNull" for acc i
    using validate_nonpositive [OF _ _ assms] that by (simp add: applyTransaction_def)
  have p4: "position (k + 1) \<notin> set (map entryIndex (applied (processBankingTransaction input)))"
    if h: "initAccount input = Inr (acc0, txns) \<and> k < length txns \<and> txns ! k = t"
    for input acc0 txns k
  proof
    assume "position (k + 1) \<in> set (map entryIndex (applied (processBankingTransaction input)))"
    obtain ex acc nap nrj where run: "forEachTxn acc0 0 txns [] [] = (ex, acc, nap, nrj)"
      by (cases "forEachTxn acc0 0 txns [] []") auto
    from h process_valid(2) [OF _ run] have "applied (processBankingTransaction input) = nap"
      by simp
    with \<open>position (k + 1) \<in> set (map entryIndex (applied (processBankingTransaction input)))\<close>
    obtain e where e: "e \<in> set nap" "entryIndex e = position (k + 1)" by auto
    from run_applied_origin [OF run e(1)] obtain j where
      j: "j < length txns" "entryIndex e = position (0 + j + 1)"
         "validateTransaction (txns ! j) = Inr (Valid (entryAmount e))" by blast
    from j(2) e(2) have "j = k" using position_inj [of "k + 1" "0 + j + 1"] by simp
    with j(3) h have "validateTransaction t = Inr (Valid (entryAmount e))" by simp
    from validate_ValidD [OF this] assms show False by simp
  qed
  from p1 p2 p3 p4 show ?thesis by blast
qed

theorem nonpositive_amount_never_applied_witness:
  "toNumber (getProp (testCase2_transactions ! 2) ''amount'') = Inr (Some (- 100))
   \<and> applyTransaction
       \<lparr>accountNumber = JStr ''ACC002'', accountHolder = JStr ''Jane Smith'',
        currency = JStr ''EUR'', initialBalance = 2000, balance = 2500\<rparr> 2
       (testCase2_transactions ! 2) =
     Inr (\<lparr>accountNumber = JStr ''ACC002'', accountHolder = JStr ''Jane Smith'',
           currency = JStr ''EUR'', initialBalance = 2000, balance = 2500\<rparr>,
          NotApplied [Lit ''Amount must be positive: '', Val (JNum (Fin (- 100)))]
            [(''type'', JStr ''Deposit''), (''amount'', JNum (Fin (- 100))),
             (''index'', JNum (Fin 3))])
   \<and> position 3 \<notin> set (map entryIndex (applied (processBankingTransaction testCase2)))"
proof -
  let ?t = "testCase2_transactions ! 2"
  let ?acc = "\<lparr>accountNumber = JStr ''ACC002'', accountHolder = JStr ''Jane Smith'',
               currency = JStr ''EUR'', initialBalance = 2000, balance = 2500\<rparr>"
  have t: "?t = JObj [(''type'', JStr ''Deposit''), (''amount'', JNum (Fin (- 100)))]"
    by (simp add: testCase2_transactions_def)
  have h1: "toNumber (getProp ?t ''amount'') = Inr (Some (- 100))"
    by (simp add: t toNumber_Fin)
  have h2: "(- 100 :: rat) \<le> 0" by simp
  note th = nonpositive_amount_never_applied [OF h1 h2]
  have ty: "isTransactionType (getProp ?t ''type'') \<and> getProp ?t ''amount'' \<noteq> JNull"
    by (simp add: t isTransactionType_iff)
  from th ty have "applyTransaction ?acc 2 ?t =
     Inr (?acc, NotApplied [Lit ''Amount must be positive: '', Val (JNum (Fin (- 100)))]
                  (withIndex 2 (spread ?t)))"
    by blast
  then have a: "applyTransaction ?acc 2 ?t =
     Inr (?acc, NotApplied [Lit ''Amount must be positive: '', Val (JNum (Fin (- 100)))]
            [(''type'', JStr ''Deposit''), (''amount'', JNum (Fin (- 100))),
             (''index'', JNum (Fin 3))])"
    by (simp add: t withIndex_def)
  have run: "initAccount testCase2 =
      Inr (\<lparr>accountNumber = JStr ''ACC002'', accountHolder = JStr ''Jane Smith'',
            currency = JStr ''EUR'', initialBalance = 2000, balance = 2000\<rparr>,
           testCase2_transactions)
      \<and> 2 < length testCase2_transactions \<and> testCase2_transactions ! 2 = ?t"
    by (simp add: initAccount_testCase2) (simp add: testCase2_transactions_def)
  from th run
  have "position (2 + 1) \<notin> set (map entryIndex (applied (processBankingTransaction testCase2)))"
    by blast
  then have b: "position 3 \<notin> set (map entryIndex (applied (processBankingTransaction testCase2)))"
    by simp
  from h1 a b show ?thesis by blast
qed

subsection \<open>C5: the order of the structural checks\<close>

text \<open>
  C5, as stated, fails: the script checks that \<^verbatim>\<open>transactions\<close> is an array (line 110)
  before it coerces the initial balance (lines 112 to 115). For an input whose initial
  balance \<^verbatim>\<open>"abc"\<close> is not coercible and whose \<^verbatim>\<open>transactions\<close> is not an array, the
  one failure reported is ``Transactions must be an array''.
\<close>

theorem structural_validation_order_counterexample:
  "toNumber (JStr ''abc'') = Inr None
   \<and> isArray (JStr ''none'') = False
   \<and> processBankingTransaction
       (JObj [(''accountNumber'', JStr ''ACC004''), (''accountHolder'', JStr ''Eve''),
              (''initialBalance'', JStr ''abc''), (''currency'', JStr ''USD''),
              (''transactions'', JStr ''none'')]) =
     \<lparr>account = None, applied = [],
      rejected = [SystemError [Lit ''Transactions must be an array'']],
      logMessage = [Lit ''Transactions must be an array'']\<rparr>"
  by (simp add: processBankingTransaction_def initAccount_def toNumber_def Number_def
                parse_defs)

text \<open>
  C5, amended. Structural validation is fail-fast in the order of the script: the input
  is an object; the account number, the account holder, the initial balance and the
  currency are present, in this order; \<^verbatim>\<open>transactions\<close> is an array; the initial
  balance is coercible. The first failing check gives the one structural error of the
  run. In particular, an input whose initial balance is not coercible and whose
  \<^verbatim>\<open>transactions\<close> is not an array reports ``Transactions must be an array''.
\<close>

theorem structural_validation_order:
  "(falsy input \<or> \<not> typeofObject input \<longrightarrow>
      rejected (processBankingTransaction input) =
        [SystemError [Lit ''Input must be a valid object'']])
   \<and> (\<not> falsy input
      \<and> typeofObject input
      \<and> falsy (getProp input ''accountNumber'') \<longrightarrow>
      rejected (processBankingTransaction input) =
        [SystemError [Lit ''Missing account number'']])
   \<and> (\<not> falsy input
      \<and> typeofObject input
      \<and> \<not> falsy (getProp input ''accountNumber'')
      \<and> falsy (getProp input ''accountHolder'') \<longrightarrow>
      rejected (processBankingTransaction input) =
        [SystemError [Lit ''Missing account holder'']])
   \<and> (\<not> falsy input
      \<and> typeofObject input
      \<and> \<not> falsy (getProp input ''accountNumber'')
      \<and> \<not> falsy (getProp input ''accountHolder'')
      \<and> (getProp input ''initialBalance'' = JUndefined
         \<or> getProp input ''initialBalance'' = JNull) \<longrightarrow>
      rejected (processBankingTransaction input) =
        [SystemError [Lit ''Missing initial balance'']])
   \<and> (\<not> falsy input
      \<and> typeofObject input
      \<and> \<not> falsy (getProp input ''accountNumber'')
      \<and> \<not> falsy (getProp input ''accountHolder'')
      \<and> getProp input ''initialBalance'' \<noteq> JUndefined
      \<and> getProp input ''initialBalance'' \<noteq> JNull
      \<and> falsy (getProp input ''currency'') \<longrightarrow>
      rejected (processBankingTransaction input) =
        [SystemError [Lit ''Missing currency'']])
   \<and> (\<not> falsy input
      \<and> typeofObject input
      \<and> \<not> falsy (getProp input ''accountNumber'')
      \<and> \<not> falsy (getProp input ''accountHolder'')
      \<and> getProp input ''initialBalance'' \<noteq> JUndefined
      \<and> getProp input ''initialBalance'' \<noteq> JNull
      \<and> \<not> falsy (getProp input ''currency'')
      \<and> \<not> isArray (getProp input ''transactions'') \<longrightarrow>
      rejected (processBankingTransaction input) =
        [SystemError [Lit ''Transactions must be an array'']])
   \<and> (\<not> falsy input
      \<and> typeofObject input
      \<and> \<not> falsy (getProp input ''accountNumber'')
      \<and> \<not> falsy (getProp input ''accountHolder'')
      \<and> getProp input ''initialBalance'' \<noteq> JUndefined
      \<and> getProp input ''initialBalance'' \<noteq> JNull
      \<and> \<not> falsy (getProp input ''currency'')
      \<and> isArray (getProp input ''transactions'')
      \<and> toNumber (getProp input ''initialBalance'') = Inr None \<longrightarrow>
      rejected (processBankingTransaction input) =
        [SystemError [Lit ''Invalid initial balance: '',
                      Val (getProp input ''initialBalance'')]])
   \<and> (account (processBankingTransaction input) = None \<longrightarrow>
      length (rejected (processBankingTransaction input)) = 1)"
proof -
  have last: "account (processBankingTransaction input) = None \<longrightarrow>
        length (rejected (processBankingTransaction input)) = 1"
    by (cases "initAccount input")
       (auto simp: processBankingTransaction_def Let_def split: prod.splits)
  have "initAccount input = Inl e \<Longrightarrow>
      rejected (processBankingTransaction input) = [SystemError (exn_message e)]" for e
    by (simp add: process_invalid)
  then show ?thesis
    using last initAccount_order [of input]
    by (auto split: if_splits)
qed

theorem structural_validation_order_witness:
  "rejected (processBankingTransaction
       (JNull)) =
     [SystemError [Lit ''Input must be a valid object'']]
   \<and> rejected (processBankingTransaction
       (JObj [])) =
     [SystemError [Lit ''Missing account number'']]
   \<and> rejected (processBankingTransaction
       (JObj [(''accountNumber'', JStr ''ACC004'')])) =
     [SystemError [Lit ''Missing account holder'']]
   \<and> rejected (processBankingTransaction
       (JObj [(''accountNumber'', JStr ''ACC004''),
              (''accountHolder'', JStr ''Eve'')])) =
     [SystemError [Lit ''Missing initial balance'']]
   \<and> rejected (processBankingTransaction
       (JObj [(''accountNumber'', JStr ''ACC004''),
              (''accountHolder'', JStr ''Eve''), (''initialBalance'', JStr ''abc'')])) =
     [SystemError [Lit ''Missing currency'']]
   \<and> rejected (processBankingTransaction
       (JObj [(''accountNumber'', JStr ''ACC004''),
              (''accountHolder'', JStr ''Eve''), (''initialBalance'', JStr ''abc''),
              (''currency'', JStr ''USD'')])) =
     [SystemError [Lit ''Transactions must be an array'']]
   \<and> rejected (processBankingTransaction
       (JObj [(''accountNumber'', JStr ''ACC004''),
              (''accountHolder'', JStr ''Eve''), (''initialBalance'', JStr ''abc''),
              (''currency'', JStr ''USD''), (''transactions'', JArr [])])) =
     [SystemError [Lit ''Invalid initial balance: '', Val (JStr ''abc'')]]"
proof -
  have nc: "toNumber (JStr ''abc'') = Inr None"
    by (simp add: toNumber_def Number_def parse_defs)
  have c1: "rejected (processBankingTransaction
       (JNull)) =
     [SystemError [Lit ''Input must be a valid object'']]"
    using structural_validation_order
      [of "JNull"]
    by (simp add: nc)
  have c2: "rejected (processBankingTransaction
       (JObj [])) =
     [SystemError [Lit ''Missing account number'']]"
    using structural_validation_order
      [of "JObj []"]
    by (simp add: nc)
  have c3: "rejected (processBankingTransaction
       (JObj [(''accountNumber'', JStr ''ACC004'')])) =
     [SystemError [Lit ''Missing account holder'']]"
    using structural_validation_order
      [of "JObj [(''accountNumber'', JStr ''ACC004'')]"]
    by (simp add: nc)
  have c4: "rejected (processBankingTransaction
       (JObj [(''accountNumber'', JStr ''ACC004''),
              (''accountHolder'', JStr ''Eve'')])) =
     [SystemError [Lit ''Missing initial balance'']]"
    using structural_validation_order
      [of "JObj [(''accountNumber'', JStr ''ACC004''),
                    (''accountHolder'', JStr ''Eve'')]"]
    by (simp add: nc)
  have c5: "rejected (processBankingTransaction
       (JObj [(''accountNumber'', JStr ''ACC004''),
              (''accountHolder'', JStr ''Eve''), (''initialBalance'', JStr ''abc'')])) =
     [SystemError [Lit ''Missing currency'']]"
    using structural_validation_order
      [of "JObj [(''accountNumber'', JStr ''ACC004''),
                    (''accountHolder'', JStr ''Eve''), (''initialBalance'', JStr ''abc'')]"]
    by (simp add: nc)
  have c6: "rejected (processBankingTransaction
       (JObj [(''accountNumber'', JStr ''ACC004''),
              (''accountHolder'', JStr ''Eve''), (''initialBalance'', JStr ''abc''),
              (''currency'', JStr ''USD'')])) =
     [SystemError [Lit ''Transactions must be an array'']]"
    using structural_validation_order
      [of "JObj [(''accountNumber'', JStr ''ACC004''),
                    (''accountHolder'', JStr ''Eve''), (''initialBalance'', JStr ''abc''),
                    (''currency'', JStr ''USD'')]"]
    by (simp add: nc)
  have c7: "rejected (processBankingTransaction
       (JObj [(''accountNumber'', JStr ''ACC004''),
              (''accountHolder'', JStr ''Eve''), (''initialBalance'', JStr ''abc''),
              (''currency'', JStr ''USD''), (''transactions'', JArr [])])) =
     [SystemError [Lit ''Invalid initial balance: '', Val (JStr ''abc'')]]"
    using structural_validation_order
      [of "JObj [(''accountNumber'', JStr ''ACC004''),
                    (''accountHolder'', JStr ''Eve''), (''initialBalance'', JStr ''abc''),
                    (''currency'', JStr ''USD''), (''transactions'', JArr [])]"]
    by (simp add: nc)
  from c1 c2 c3 c4 c5 c6 c7 show ?thesis by blast
qed

subsection \<open>C6: the outcome of a structural failure\<close>

text \<open>
  C6. For every input that fails a structural check (the input is not an object; the
  account number, the account holder, the initial balance or the currency is missing;
  \<^verbatim>\<open>transactions\<close> is not an array; the initial balance is not coercible), the account
  is not created, the applied array is empty, and the rejected array holds exactly one
  entry, the system-level one with the message of the error thrown, which has no
  transaction and no position. No transaction has an outcome.
\<close>

theorem structural_failure_outcome:
  assumes "falsy input \<or> \<not> typeofObject input
     \<or> falsy (getProp input ''accountNumber'')
     \<or> falsy (getProp input ''accountHolder'')
     \<or> getProp input ''initialBalance'' = JUndefined
     \<or> getProp input ''initialBalance'' = JNull
     \<or> falsy (getProp input ''currency'')
     \<or> \<not> isArray (getProp input ''transactions'')
     \<or> (\<forall>b. toNumber (getProp input ''initialBalance'') \<noteq> Inr (Some b))"
  shows "\<exists>e. initAccount input = Inl e
     \<and> processBankingTransaction input =
         \<lparr>account = None, applied = [], rejected = [SystemError (exn_message e)],
          logMessage = exn_message e\<rparr>
     \<and> map rejectionIndex (rejected (processBankingTransaction input)) = [JUndefined]"
proof -
  from initAccount_Inl [OF assms] obtain e where e: "initAccount input = Inl e" by blast
  from process_invalid [OF e] e show ?thesis by simp
qed

theorem structural_failure_outcome_witness:
  "(\<forall>b. toNumber (getProp
          (JObj [(''accountNumber'', JStr ''ACC004''), (''accountHolder'', JStr ''Eve''),
                 (''initialBalance'', JStr ''abc''), (''currency'', JStr ''USD''),
                 (''transactions'', JArr testCase2_transactions)]) ''initialBalance'')
        \<noteq> Inr (Some b))
   \<and> processBankingTransaction
       (JObj [(''accountNumber'', JStr ''ACC004''), (''accountHolder'', JStr ''Eve''),
              (''initialBalance'', JStr ''abc''), (''currency'', JStr ''USD''),
              (''transactions'', JArr testCase2_transactions)]) =
     \<lparr>account = None, applied = [],
      rejected = [SystemError [Lit ''Invalid initial balance: '', Val (JStr ''abc'')]],
      logMessage = [Lit ''Invalid initial balance: '', Val (JStr ''abc'')]\<rparr>
   \<and> map rejectionIndex
       (rejected (processBankingTransaction
          (JObj [(''accountNumber'', JStr ''ACC004''), (''accountHolder'', JStr ''Eve''),
                 (''initialBalance'', JStr ''abc''), (''currency'', JStr ''USD''),
                 (''transactions'', JArr testCase2_transactions)]))) = [JUndefined]"
proof -
  let ?x = "JObj [(''accountNumber'', JStr ''ACC004''), (''accountHolder'', JStr ''Eve''),
                  (''initialBalance'', JStr ''abc''), (''currency'', JStr ''USD''),
                  (''transactions'', JArr testCase2_transactions)]"
  have nc: "toNumber (JStr ''abc'') = Inr None"
    by (simp add: toNumber_def Number_def parse_defs)
  then have h: "\<forall>b. toNumber (getProp ?x ''initialBalance'') \<noteq> Inr (Some b)"
    by simp
  have e: "initAccount ?x = Inl (Error [Lit ''Invalid initial balance: '', Val (JStr ''abc'')])"
    by (simp add: initAccount_def nc template_def)
  have hyp: "falsy ?x \<or> \<not> typeofObject ?x
     \<or> falsy (getProp ?x ''accountNumber'')
     \<or> falsy (getProp ?x ''accountHolder'')
     \<or> getProp ?x ''initialBalance'' = JUndefined
     \<or> getProp ?x ''initialBalance'' = JNull
     \<or> falsy (getProp ?x ''currency'')
     \<or> \<not> isArray (getProp ?x ''transactions'')
     \<or> (\<forall>b. toNumber (getProp ?x ''initialBalance'') \<noteq> Inr (Some b))"
    using h by blast
  from structural_failure_outcome [OF hyp] e
  have "processBankingTransaction ?x =
     \<lparr>account = None, applied = [],
      rejected = [SystemError [Lit ''Invalid initial balance: '', Val (JStr ''abc'')]],
      logMessage = [Lit ''Invalid initial balance: '', Val (JStr ''abc'')]\<rparr>
   \<and> map rejectionIndex (rejected (processBankingTransaction ?x)) = [JUndefined]"
    by auto
  with h show ?thesis by simp
qed

subsection \<open>C7: one outcome for every transaction\<close>




subsection \<open>C8: what changes the balance\<close>

text \<open>
  C8. For every structurally valid input, the balance of the new account is its stored
  initial balance, the coerced initial balance of the input. The account at the end of
  the run is the new account with the balance obtained by adding the signed amounts of
  the applied entries, each once, in the order of the applied array, which is the order
  of the input (the positions of the applied entries increase strictly); no other field
  changes. For one transaction: a rejected transaction leaves the whole account as it
  is, and an applied one changes the balance only, by its signed amount.
\<close>

theorem balance_frame:
  assumes "initAccount input = Inr (acc0, txns)"
  shows "balance acc0 = initialBalance acc0
     \<and> toNumber (getProp input ''initialBalance'') = Inr (Some (initialBalance acc0))
     \<and> account (processBankingTransaction input) =
         Some (acc0\<lparr>balance := foldl (\<lambda>b t. b + signedAmount t) (initialBalance acc0)
                                 (applied (processBankingTransaction input))\<rparr>)
     \<and> (\<exists>ks. map entryIndex (applied (processBankingTransaction input)) = map position ks
            \<and> sorted_wrt (<) ks)
     \<and> (\<forall>acc i t acc' reason tr.
           applyTransaction acc i t = Inr (acc', NotApplied reason tr) \<longrightarrow> acc' = acc)
     \<and> (\<forall>acc i t acc' tr.
           applyTransaction acc i t = Inr (acc', Applied tr) \<longrightarrow>
             acc' = acc\<lparr>balance := balance acc + signedAmount tr\<rparr>)"
proof -
  obtain ex acc nap nrj where run: "forEachTxn acc0 0 txns [] [] = (ex, acc, nap, nrj)"
    by (cases "forEachTxn acc0 0 txns [] []") auto
  have a: "acc = acc0\<lparr>balance := foldl (\<lambda>b t. b + signedAmount t) (initialBalance acc0) nap\<rparr>"
    using run_frame [OF run] initAccount_InrD(2) [OF assms] by simp
  have b: "\<exists>ks. map entryIndex nap = map position ks \<and> sorted_wrt (<) ks"
    using run_applied_sorted [OF run] by blast
  have c: "\<forall>acc i t acc' reason tr.
           applyTransaction acc i t = Inr (acc', NotApplied reason tr) \<longrightarrow> acc' = acc"
    using apply_NotAppliedD by blast
  have d: "\<forall>acc i t acc' tr.
           applyTransaction acc i t = Inr (acc', Applied tr) \<longrightarrow>
             acc' = acc\<lparr>balance := balance acc + signedAmount tr\<rparr>"
    using apply_Applied_entry(1) by blast
  show ?thesis
    using a b c d process_valid(1,2) [OF assms run] initAccount_InrD(1,2) [OF assms]
    by simp
qed

theorem balance_frame_witness:
  "toNumber (getProp testCase3 ''initialBalance'') = Inr (Some (1001 / 2))
   \<and> account (processBankingTransaction testCase3) =
       Some \<lparr>accountNumber = JStr ''ACC003'', accountHolder = JStr ''Bob Johnson'',
             currency = JStr ''GBP'', initialBalance = 1001 / 2,
             balance = foldl (\<lambda>b t. b + signedAmount t) (1001 / 2)
                         (applied (processBankingTransaction testCase3))\<rparr>
   \<and> foldl (\<lambda>b t. b + signedAmount t) (1001 / 2)
        (applied (processBankingTransaction testCase3)) = 1
   \<and> applyTransaction
       \<lparr>accountNumber = JStr ''ACC003'', accountHolder = JStr ''Bob Johnson'',
        currency = JStr ''GBP'', initialBalance = 1001 / 2, balance = 3005 / 4\<rparr> 1
       (JObj [(''type'', JStr ''Withdraw''), (''amount'', JNum (Fin 0))]) =
     Inr (\<lparr>accountNumber = JStr ''ACC003'', accountHolder = JStr ''Bob Johnson'',
           currency = JStr ''GBP'', initialBalance = 1001 / 2, balance = 3005 / 4\<rparr>,
          NotApplied [Lit ''Amount must be positive: '', Val (JNum (Fin 0))]
            [(''type'', JStr ''Withdraw''), (''amount'', JNum (Fin 0)),
             (''index'', JNum (Fin 2))])
   \<and> applyTransaction
       \<lparr>accountNumber = JStr ''ACC003'', accountHolder = JStr ''Bob Johnson'',
        currency = JStr ''GBP'', initialBalance = 1001 / 2, balance = 3005 / 4\<rparr> 2
       (JObj [(''type'', JStr ''Withdraw''), (''amount'', JNum (Fin (3001 / 4)))]) =
     Inr (\<lparr>accountNumber = JStr ''ACC003'', accountHolder = JStr ''Bob Johnson'',
           currency = JStr ''GBP'', initialBalance = 1001 / 2, balance = 1\<rparr>,
          Applied [(''type'', JStr ''Withdraw''), (''amount'', JNum (Fin (3001 / 4))),
                   (''index'', JNum (Fin 3))])"
proof -
  let ?acc = "\<lparr>accountNumber = JStr ''ACC003'', accountHolder = JStr ''Bob Johnson'',
               currency = JStr ''GBP'', initialBalance = 1001 / 2, balance = 3005 / 4\<rparr>"
  let ?z = "JObj [(''type'', JStr ''Withdraw''), (''amount'', JNum (Fin 0))]"
  let ?w = "JObj [(''type'', JStr ''Withdraw''), (''amount'', JNum (Fin (3001 / 4)))]"
  note th = balance_frame [OF initAccount_testCase3]
  have a: "toNumber (getProp testCase3 ''initialBalance'') = Inr (Some (1001 / 2))"
    using th by simp
  have b: "account (processBankingTransaction testCase3) =
       Some \<lparr>accountNumber = JStr ''ACC003'', accountHolder = JStr ''Bob Johnson'',
             currency = JStr ''GBP'', initialBalance = 1001 / 2,
             balance = foldl (\<lambda>b t. b + signedAmount t) (1001 / 2)
                         (applied (processBankingTransaction testCase3))\<rparr>"
    using th by simp
  have c: "foldl (\<lambda>b t. b + signedAmount t) (1001 / 2)
        (applied (processBankingTransaction testCase3)) = 1"
    using b by (simp add: process_testCase3)
  have r0: "applyTransaction ?acc 1 ?z =
     Inr (?acc,
          NotApplied [Lit ''Amount must be positive: '', Val (JNum (Fin 0))]
            [(''type'', JStr ''Withdraw''), (''amount'', JNum (Fin 0)),
             (''index'', JNum (Fin 2))])"
    by (simp add: applyTransaction_def validateTransaction_def template_def
                  isTransactionType_def withIndex_def toNumber_Fin)
  have s0: "applyTransaction ?acc 2 ?w =
     Inr (?acc\<lparr>balance := 1\<rparr>,
          Applied [(''type'', JStr ''Withdraw''), (''amount'', JNum (Fin (3001 / 4))),
                   (''index'', JNum (Fin 3))])"
    by (simp add: applyTransaction_def validateTransaction_def template_def
                  isTransactionType_def withIndex_def toNumber_Fin)
  from th have frame: "\<forall>acc i t acc' reason tr.
      applyTransaction acc i t = Inr (acc', NotApplied reason tr) \<longrightarrow> acc' = acc"
    and step: "\<forall>acc i t acc' tr.
      applyTransaction acc i t = Inr (acc', Applied tr) \<longrightarrow>
        acc' = acc\<lparr>balance := balance acc + signedAmount tr\<rparr>"
    by blast+
  from frame r0 have r: "applyTransaction ?acc 1 ?z =
     Inr (?acc,
          NotApplied [Lit ''Amount must be positive: '', Val (JNum (Fin 0))]
            [(''type'', JStr ''Withdraw''), (''amount'', JNum (Fin 0)),
             (''index'', JNum (Fin 2))])"
    by simp
  from step [rule_format, OF s0] s0 have s: "applyTransaction ?acc 2 ?w =
     Inr (\<lparr>accountNumber = JStr ''ACC003'', accountHolder = JStr ''Bob Johnson'',
           currency = JStr ''GBP'', initialBalance = 1001 / 2, balance = 1\<rparr>,
          Applied [(''type'', JStr ''Withdraw''), (''amount'', JNum (Fin (3001 / 4))),
                   (''index'', JNum (Fin 3))])"
    by simp
  from a b c r s show ?thesis by simp
qed

subsection \<open>C9: scenario C\<close>

text \<open>
  C9. Scenario C is the fixture \<^verbatim>\<open>testCase3\<close>: initial balance \<^verbatim>\<open>"500.50"\<close> and the
  transactions Deposit \<^verbatim>\<open>"250.75"\<close>, Withdraw \<^verbatim>\<open>0\<close>, Withdraw \<^verbatim>\<open>750.25\<close>. The deposit
  is applied and brings the balance from 500.50 to 751.25; Withdraw 0 is rejected as not
  positive; Withdraw 750.25 is applied, since 750.25 is at most 751.25. Two transactions
  are applied, one is rejected, and the ending balance is 1.
\<close>

theorem scenario_C:
  "applyTransaction
     \<lparr>accountNumber = JStr ''ACC003'', accountHolder = JStr ''Bob Johnson'',
      currency = JStr ''GBP'', initialBalance = 50050 / 100, balance = 50050 / 100\<rparr> 0
     (JObj [(''type'', JStr ''Deposit''), (''amount'', JStr ''250.75'')]) =
     Inr (\<lparr>accountNumber = JStr ''ACC003'', accountHolder = JStr ''Bob Johnson'',
           currency = JStr ''GBP'', initialBalance = 50050 / 100, balance = 75125 / 100\<rparr>,
          Applied [(''type'', JStr ''Deposit''), (''amount'', JNum (Fin (25075 / 100))),
                   (''index'', JNum (Fin 1))])
   \<and> processBankingTransaction testCase3 =
     \<lparr>account =
        Some \<lparr>accountNumber = JStr ''ACC003'', accountHolder = JStr ''Bob Johnson'',
              currency = JStr ''GBP'', initialBalance = 50050 / 100, balance = 1\<rparr>,
      applied =
        [[(''type'', JStr ''Deposit''), (''amount'', JNum (Fin (25075 / 100))),
          (''index'', JNum (Fin 1))],
         [(''type'', JStr ''Withdraw''), (''amount'', JNum (Fin (75025 / 100))),
          (''index'', JNum (Fin 3))]],
      rejected =
        [TxnRejected [Lit ''Amount must be positive: '', Val (JNum (Fin 0))]
           [(''type'', JStr ''Withdraw''), (''amount'', JNum (Fin 0)),
            (''index'', JNum (Fin 2))]],
      logMessage =
        [Lit ''Completed: '', Val (JNum (Fin 2)), Lit '' applied, '',
         Val (JNum (Fin 1)), Lit '' rejected.'']\<rparr>
   \<and> length (applied (processBankingTransaction testCase3)) = 2
   \<and> length (rejected (processBankingTransaction testCase3)) = 1"
proof -
  have "applyTransaction
     \<lparr>accountNumber = JStr ''ACC003'', accountHolder = JStr ''Bob Johnson'',
      currency = JStr ''GBP'', initialBalance = 50050 / 100, balance = 50050 / 100\<rparr> 0
     (JObj [(''type'', JStr ''Deposit''), (''amount'', JStr ''250.75'')]) =
     Inr (\<lparr>accountNumber = JStr ''ACC003'', accountHolder = JStr ''Bob Johnson'',
           currency = JStr ''GBP'', initialBalance = 50050 / 100, balance = 75125 / 100\<rparr>,
          Applied [(''type'', JStr ''Deposit''), (''amount'', JNum (Fin (25075 / 100))),
                   (''index'', JNum (Fin 1))])"
    by (simp add: applyTransaction_def validateTransaction_def template_def
                  isTransactionType_def withIndex_def toNumber_250_75)
  then show ?thesis by (simp add: process_testCase3)
qed

subsection \<open>C10: a type that is present but falsy\<close>

text \<open>
  C10. A transaction object whose \<^verbatim>\<open>type\<close> property is present with a falsy value (the
  empty string, 0, \<^verbatim>\<open>false\<close>, \<^verbatim>\<open>null\<close>, \<^verbatim>\<open>undefined\<close>, \<^verbatim>\<open>NaN\<close>) is rejected with reason
  ``Missing transaction type''. A rejection with reason ``Unknown transaction type:
  \<open>value\<close>'' carries the type of the transaction as its value, and this type is truthy
  and is neither \<^verbatim>\<open>"Deposit"\<close> nor \<^verbatim>\<open>"Withdraw"\<close>.
\<close>

theorem falsy_type_is_missing:
  "(map_of ps ''type'' = Some v \<and> falsy v \<longrightarrow>
      applyTransaction acc i (JObj ps) =
        Inr (acc, NotApplied [Lit ''Missing transaction type''] (withIndex i ps)))
   \<and> (applyTransaction acc i t =
        Inr (acc', NotApplied (Lit ''Unknown transaction type: '' # rest) tr) \<longrightarrow>
      rest = [Val (getProp t ''type'')] \<and> \<not> falsy (getProp t ''type'')
      \<and> getProp t ''type'' \<noteq> JStr ''Deposit'' \<and> getProp t ''type'' \<noteq> JStr ''Withdraw'')"
proof -
  have p1: "applyTransaction acc i (JObj ps) =
        Inr (acc, NotApplied [Lit ''Missing transaction type''] (withIndex i ps))"
    if "map_of ps ''type'' = Some v \<and> falsy v"
  proof -
    from that
    have "validateTransaction (JObj ps) = Inr (Invalid [Lit ''Missing transaction type''])"
      by (simp add: validate_falsy_type)
    then show ?thesis by (simp add: applyTransaction_def)
  qed
  have p2: "rest = [Val (getProp t ''type'')] \<and> \<not> falsy (getProp t ''type'')
      \<and> getProp t ''type'' \<noteq> JStr ''Deposit'' \<and> getProp t ''type'' \<noteq> JStr ''Withdraw''"
    if a: "applyTransaction acc i t =
        Inr (acc', NotApplied (Lit ''Unknown transaction type: '' # rest) tr)"
  proof -
    from apply_InvalidD [OF a]
    have "validateTransaction t = Inr (Invalid (Lit ''Unknown transaction type: '' # rest))"
      by auto
    from validate_UnknownD [OF this] show ?thesis .
  qed
  from p1 p2 show ?thesis by blast
qed

theorem falsy_type_is_missing_witness:
  "map_of [(''type'', JStr []), (''amount'', JNum (Fin 50))] ''type'' = Some (JStr [])
   \<and> falsy (JStr [])
   \<and> applyTransaction
       \<lparr>accountNumber = JStr ''ACC002'', accountHolder = JStr ''Jane Smith'',
        currency = JStr ''EUR'', initialBalance = 2000, balance = 2500\<rparr> 0
       (JObj [(''type'', JStr []), (''amount'', JNum (Fin 50))]) =
     Inr (\<lparr>accountNumber = JStr ''ACC002'', accountHolder = JStr ''Jane Smith'',
           currency = JStr ''EUR'', initialBalance = 2000, balance = 2500\<rparr>,
          NotApplied [Lit ''Missing transaction type'']
            [(''type'', JStr []), (''amount'', JNum (Fin 50)), (''index'', JNum (Fin 1))])
   \<and> applyTransaction
       \<lparr>accountNumber = JStr ''ACC002'', accountHolder = JStr ''Jane Smith'',
        currency = JStr ''EUR'', initialBalance = 2000, balance = 2500\<rparr> 3
       (JObj [(''type'', JStr ''Unknown''), (''amount'', JNum (Fin 50))]) =
     Inr (\<lparr>accountNumber = JStr ''ACC002'', accountHolder = JStr ''Jane Smith'',
           currency = JStr ''EUR'', initialBalance = 2000, balance = 2500\<rparr>,
          NotApplied [Lit ''Unknown transaction type: '', Val (JStr ''Unknown'')]
            [(''type'', JStr ''Unknown''), (''amount'', JNum (Fin 50)),
             (''index'', JNum (Fin 4))])
   \<and> \<not> falsy (getProp (JObj [(''type'', JStr ''Unknown''), (''amount'', JNum (Fin 50))])
                 ''type'')"
proof -
  let ?acc = "\<lparr>accountNumber = JStr ''ACC002'', accountHolder = JStr ''Jane Smith'',
               currency = JStr ''EUR'', initialBalance = 2000, balance = 2500\<rparr>"
  let ?ps = "[(''type'', JStr []), (''amount'', JNum (Fin 50))]"
  let ?u = "JObj [(''type'', JStr ''Unknown''), (''amount'', JNum (Fin 50))]"
  let ?tr = "[(''type'', JStr ''Unknown''), (''amount'', JNum (Fin 50)),
              (''index'', JNum (Fin 4))]"
  have h: "map_of ?ps ''type'' = Some (JStr []) \<and> falsy (JStr [])" by simp
  note missing = falsy_type_is_missing [of ?ps "JStr []" ?acc 0, THEN conjunct1,
      rule_format, OF h]
  have a: "applyTransaction ?acc 0 (JObj ?ps) =
        Inr (?acc, NotApplied [Lit ''Missing transaction type'']
               [(''type'', JStr []), (''amount'', JNum (Fin 50)), (''index'', JNum (Fin 1))])"
    using missing by (simp add: withIndex_def)
  have b: "applyTransaction ?acc 3 ?u =
     Inr (?acc, NotApplied (Lit ''Unknown transaction type: '' # [Val (JStr ''Unknown'')]) ?tr)"
    by (simp add: applyTransaction_def validateTransaction_def template_def
                  isTransactionType_def withIndex_def)
  note unknown = falsy_type_is_missing [of _ _ ?acc 3 ?u ?acc "[Val (JStr ''Unknown'')]" ?tr,
      THEN conjunct2, rule_format, OF b]
  have c: "\<not> falsy (getProp ?u ''type'')" using unknown by blast
  from h a b c show ?thesis by simp
qed

end
